theory Spec2Isabelle
  imports Complex_Main "HOL-Library.Word"
begin

section \<open>Python values used by the bot\<close>

text \<open>
  Python's unbounded integers are modelled as \<open>int\<close>, a \<open>datetime\<close> as its POSIX
  timestamp in seconds, and a \<open>str\<close> as a \<open>string\<close>. A field or variable that holds a
  finite \<^verbatim>\<open>float\<close> is a \<open>real\<close>, the value of that float. The scanner's price
  arithmetic is carried out in exact reals; the executor's arithmetic, where an
  overflow changes the control flow, is carried out in binary64 (see below).
\<close>

type_synonym datetime = real

text \<open>\<^verbatim>\<open>int(x)\<close> on a float: truncation towards zero.\<close>

definition py_int :: "real \<Rightarrow> int" where
  "py_int x = (if 0 \<le> x then \<lfloor>x\<rfloor> else \<lceil>x\<rceil>)"

subsection \<open>Binary64 arithmetic\<close>

text \<open>
  The result of a float operation: a finite value, an infinity or a NaN. Signed zeros
  are not distinguished.
\<close>

datatype pyfloat = Finite real | PosInf | NegInf | NaN

text \<open>Rounding to the nearest integer, ties to even.\<close>

definition round_half_even :: "real \<Rightarrow> int" where
  "round_half_even r =
     (let f = \<lfloor>r\<rfloor>; d = r - of_int f
      in if d < 1 / 2 then f else if d > 1 / 2 then f + 1 else if even f then f else f + 1)"

text \<open>
  The exponent of the unit in the last place of the binade of \<open>x\<close>: 52 below the
  exponent of \<open>x\<close>, which is at least -1022 (below that the numbers are subnormal).
\<close>

definition ulp_exponent :: "real \<Rightarrow> int" where
  "ulp_exponent x = max \<lfloor>log 2 \<bar>x\<bar>\<rfloor> (- 1022) - 52"

text \<open>Rounding a real to the nearest binary64 value, without a bound on the exponent.\<close>

definition round_to_double :: "real \<Rightarrow> real" where
  "round_to_double x =
     (if x = 0 then 0
      else of_int (round_half_even (x / 2 powr of_int (ulp_exponent x)))
           * 2 powr of_int (ulp_exponent x))"

text \<open>
  Half way between the largest binary64 value and \<open>2 ^ 1024\<close>: from here on a result
  rounds to an infinity.
\<close>

definition overflow_threshold :: real where
  "overflow_threshold = 2 ^ 1024 - 2 ^ 970"

definition to_float :: "real \<Rightarrow> pyfloat" where
  "to_float x =
     (if overflow_threshold \<le> x then PosInf
      else if x \<le> - overflow_threshold then NegInf
      else Finite (round_to_double x))"

text \<open>\<^verbatim>\<open>a - b\<close> on two finite floats.\<close>

definition float_sub :: "real \<Rightarrow> real \<Rightarrow> pyfloat" where
  "float_sub a b = to_float (a - b)"

text \<open>\<^verbatim>\<open>a * y\<close> for a finite float \<open>a\<close>.\<close>

fun float_mul :: "real \<Rightarrow> pyfloat \<Rightarrow> pyfloat" where
  "float_mul a (Finite y) = to_float (a * y)"
| "float_mul a PosInf = (if a = 0 then NaN else if 0 < a then PosInf else NegInf)"
| "float_mul a NegInf = (if a = 0 then NaN else if 0 < a then NegInf else PosInf)"
| "float_mul a NaN = NaN"

text \<open>\<^verbatim>\<open>y / c\<close> for a finite float \<open>c\<close> other than zero.\<close>

fun float_div :: "pyfloat \<Rightarrow> real \<Rightarrow> pyfloat" where
  "float_div (Finite y) c = to_float (y / c)"
| "float_div PosInf c = (if 0 < c then PosInf else NegInf)"
| "float_div NegInf c = (if 0 < c then NegInf else PosInf)"
| "float_div NaN c = NaN"

text \<open>
  The conversion of an \<^verbatim>\<open>int\<close> operand to \<^verbatim>\<open>float\<close>; \<open>None\<close> is the
  \<^verbatim>\<open>OverflowError\<close> of an integer beyond the range.
\<close>

definition int_to_float :: "int \<Rightarrow> real option" where
  "int_to_float n = (case to_float (of_int n) of Finite x \<Rightarrow> Some x | _ \<Rightarrow> None)"

text \<open>
  \<^verbatim>\<open>int(y)\<close> on a float; \<open>None\<close> is the \<^verbatim>\<open>OverflowError\<close> that an infinity raises
  or the \<^verbatim>\<open>ValueError\<close> that a NaN raises.
\<close>

definition float_to_int :: "pyfloat \<Rightarrow> int option" where
  "float_to_int y = (case y of Finite x \<Rightarrow> Some (py_int x) | _ \<Rightarrow> None)"

subsection \<open>Slices and strings\<close>

text \<open>
  The slice \<^verbatim>\<open>xs[i:]\<close>: a negative start counts from the end and is clipped at the
  front of the list, a start beyond the end gives the empty list. With \<open>i = -0 = 0\<close>
  the slice is the whole list.
\<close>

definition py_slice_from :: "'a list \<Rightarrow> int \<Rightarrow> 'a list" where
  "py_slice_from xs i =
     (if i < 0 then drop (nat (int (length xs) + i)) xs else drop (nat i) xs)"

text \<open>\<^verbatim>\<open>str.lower()\<close> on the ASCII letters (addresses are hexadecimal ASCII).\<close>

definition char_lower :: "char \<Rightarrow> char" where
  "char_lower c =
     (if c = CHR ''A'' then CHR ''a''
      else if c = CHR ''B'' then CHR ''b''
      else if c = CHR ''C'' then CHR ''c''
      else if c = CHR ''D'' then CHR ''d''
      else if c = CHR ''E'' then CHR ''e''
      else if c = CHR ''F'' then CHR ''f''
      else if c = CHR ''G'' then CHR ''g''
      else if c = CHR ''H'' then CHR ''h''
      else if c = CHR ''I'' then CHR ''i''
      else if c = CHR ''J'' then CHR ''j''
      else if c = CHR ''K'' then CHR ''k''
      else if c = CHR ''L'' then CHR ''l''
      else if c = CHR ''M'' then CHR ''m''
      else if c = CHR ''N'' then CHR ''n''
      else if c = CHR ''O'' then CHR ''o''
      else if c = CHR ''P'' then CHR ''p''
      else if c = CHR ''Q'' then CHR ''q''
      else if c = CHR ''R'' then CHR ''r''
      else if c = CHR ''S'' then CHR ''s''
      else if c = CHR ''T'' then CHR ''t''
      else if c = CHR ''U'' then CHR ''u''
      else if c = CHR ''V'' then CHR ''v''
      else if c = CHR ''W'' then CHR ''w''
      else if c = CHR ''X'' then CHR ''x''
      else if c = CHR ''Y'' then CHR ''y''
      else if c = CHR ''Z'' then CHR ''z''
      else c)"

definition lower :: "string \<Rightarrow> string" where
  "lower s = map char_lower s"

text \<open>\<^verbatim>\<open>str(n)\<close> for an integer, as an f-string renders it.\<close>

definition digit_char :: "nat \<Rightarrow> char" where
  "digit_char d = ''0123456789'' ! d"

fun str_nat :: "nat \<Rightarrow> string" where
  "str_nat n = (if n < 10 then [digit_char n] else str_nat (n div 10) @ [digit_char (n mod 10)])"

declare str_nat.simps [simp del]

definition str_int :: "int \<Rightarrow> string" where
  "str_int i = (if i < 0 then CHR ''-'' # str_nat (nat (- i)) else str_nat (nat i))"


section \<open>sniper/monitor.py: the token launch monitor\<close>

record token_launch =
  token_address :: string
  token0 :: string
  token1 :: string
  pair_address :: string
  all_pairs_length :: int
  block_number :: int
  transaction_hash :: string
  timestamp :: datetime

text \<open>
  A decoded \<^verbatim>\<open>PairCreated\<close> event: \<^verbatim>\<open>event.args.token0\<close>, \<^verbatim>\<open>event.args.token1\<close>,
  \<^verbatim>\<open>event.args.pair\<close>, \<^verbatim>\<open>event.args.allPairsLength\<close>, \<^verbatim>\<open>event.blockNumber\<close> and
  the hexadecimal rendering of \<^verbatim>\<open>event.transactionHash\<close>.
\<close>

record pair_created_event =
  ev_token0 :: string
  ev_token1 :: string
  ev_pair :: string
  ev_allPairsLength :: int
  ev_blockNumber :: int
  ev_transactionHash :: string

text \<open>The fields of \<^verbatim>\<open>TokenMonitor\<close> that the cache and the filters use.\<close>

record token_monitor =
  recent_launches :: "token_launch list"
  max_cache_size :: int
  blacklisted_tokens :: "string set"
  whitelisted_tokens :: "string set"

definition TokenMonitor_init :: token_monitor where
  "TokenMonitor_init =
     \<lparr>recent_launches = [], max_cache_size = 100,
      blacklisted_tokens = {}, whitelisted_tokens = {}\<rparr>"

definition weth_address :: string where
  "weth_address = ''0xEeeeeEeeeEeEeeEeEeEeeEEEeeeeEeeeeeeeEEeE''"

definition should_process_token :: "token_monitor \<Rightarrow> string \<Rightarrow> bool" where
  "should_process_token m tok =
     (if lower tok \<in> lower ` blacklisted_tokens m then False
      else if whitelisted_tokens m \<noteq> {} then
        (if lower tok \<notin> lower ` whitelisted_tokens m then False else True)
      else True)"

text \<open>The non-WETH side of the pair; \<open>None\<close> is the early return for a non-WETH pair.\<close>

definition new_token_address :: "pair_created_event \<Rightarrow> string option" where
  "new_token_address ev =
     (if lower (ev_token0 ev) = lower weth_address then Some (ev_token1 ev)
      else if lower (ev_token1 ev) = lower weth_address then Some (ev_token0 ev)
      else None)"

definition TokenLaunch :: "string \<Rightarrow> pair_created_event \<Rightarrow> datetime \<Rightarrow> token_launch" where
  "TokenLaunch tok ev now =
     \<lparr>token_address = tok, token0 = ev_token0 ev, token1 = ev_token1 ev,
      pair_address = ev_pair ev, all_pairs_length = ev_allPairsLength ev,
      block_number = ev_blockNumber ev, transaction_hash = ev_transactionHash ev,
      timestamp = now\<rparr>"

text \<open>
  \<^verbatim>\<open>_handle_pair_created_event\<close>, with the clock reading \<open>now\<close> as an argument. The
  callbacks are notified after the cache is updated and their exceptions are caught one
  by one, so they do not enter the cache's value.
\<close>

definition handle_pair_created_event ::
  "token_monitor \<Rightarrow> pair_created_event \<Rightarrow> datetime \<Rightarrow> token_monitor" where
  "handle_pair_created_event m ev now =
     (case new_token_address ev of
        None \<Rightarrow> m
      | Some tok \<Rightarrow>
          if \<not> should_process_token m tok then m
          else
            let appended = recent_launches m @ [TokenLaunch tok ev now] in
            if int (length appended) > max_cache_size m
            then m\<lparr>recent_launches := py_slice_from appended (- max_cache_size m)\<rparr>
            else m\<lparr>recent_launches := appended\<rparr>)"

text \<open>\<^verbatim>\<open>simulate_launch_detection\<close>: appends to the cache and returns the launch.\<close>

definition simulate_launch_detection ::
  "token_monitor \<Rightarrow> string \<Rightarrow> datetime \<Rightarrow> token_launch \<times> token_monitor" where
  "simulate_launch_detection m tok now =
     (let launch =
        \<lparr>token_address = tok, token0 = ''0xEeeeeEeeeEeEeeEeEeEeeEEEeeeeEeeeeeeeEEeE'',
         token1 = tok, pair_address = ''0x'' @ replicate 40 CHR ''0'',
         all_pairs_length = 1, block_number = 12345,
         transaction_hash = ''0x'' @ replicate 64 CHR ''0'', timestamp = now\<rparr>
      in (launch, m\<lparr>recent_launches := recent_launches m @ [launch]\<rparr>))"

definition get_recent_launches :: "token_monitor \<Rightarrow> int \<Rightarrow> token_launch list" where
  "get_recent_launches m limit = py_slice_from (recent_launches m) (- limit)"

text \<open>Repeated calls of \<^verbatim>\<open>simulate_launch_detection\<close>, one per token and clock reading.\<close>

fun simulate_launches :: "token_monitor \<Rightarrow> (string \<times> datetime) list \<Rightarrow> token_monitor" where
  "simulate_launches m [] = m"
| "simulate_launches m ((tok, now) # rest) =
     simulate_launches (snd (simulate_launch_detection m tok now)) rest"

text \<open>The monitor loop's effect on the cache: the events handled one after the other.\<close>

fun handle_events ::
  "token_monitor \<Rightarrow> (pair_created_event \<times> datetime) list \<Rightarrow> token_monitor" where
  "handle_events m [] = m"
| "handle_events m ((ev, now) # rest) = handle_events (handle_pair_created_event m ev now) rest"


section \<open>config.py\<close>

text \<open>
  The class attributes of \<^verbatim>\<open>Config\<close> that the scanner and the executor read.
  \<^verbatim>\<open>config.py\<close> declares \<^verbatim>\<open>MIN_PROFIT_THRESHOLD = 0.005\<close>, \<^verbatim>\<open>DEFAULT_GAS_LIMIT = 300000\<close>
  and \<^verbatim>\<open>MAX_GAS_PRICE = int(5e10)\<close>. Neither the class nor any other file of the
  repository declares \<^verbatim>\<open>WETH_ADDRESS\<close>, so reading \<^verbatim>\<open>Config.WETH_ADDRESS\<close> raises
  \<^verbatim>\<open>AttributeError\<close>: the attribute is optional in the record and absent (\<open>None\<close>) in
  \<open>Config\<close>, the class as the repository has it.
\<close>

record config =
  MIN_PROFIT_THRESHOLD :: real
  DEFAULT_GAS_LIMIT :: int
  MAX_GAS_PRICE :: int
  WETH_ADDRESS :: "string option"

definition Config :: config where
  "Config =
     \<lparr>MIN_PROFIT_THRESHOLD = 0.005, DEFAULT_GAS_LIMIT = 300000,
      MAX_GAS_PRICE = 50000000000, WETH_ADDRESS = None\<rparr>"

text \<open>The message of that \<^verbatim>\<open>AttributeError\<close>.\<close>

definition weth_attribute_error :: string where
  "weth_attribute_error =
     ''type object '' @ [CHR 0x27] @ ''Config'' @ [CHR 0x27] @ '' has no attribute ''
     @ [CHR 0x27] @ ''WETH_ADDRESS'' @ [CHR 0x27]"


section \<open>dex/multi_dex.py: the arbitrage scanner\<close>

text \<open>
  An awaited call either raises (\<open>Inl\<close> with the exception's message) or returns
  (\<open>Inr\<close>); Python's \<^verbatim>\<open>None\<close> is \<open>None\<close>.
\<close>

record arbitrage_opportunity =
  opp_token_address :: string
  token_symbol :: string
  dex_a :: string
  dex_b :: string
  price_a :: real
  price_b :: real
  profit_percentage :: real
  gas_estimate :: int
  net_profit :: real
  is_executable :: bool
  discovered_at :: datetime

text \<open>
  What the scanner asks of an exchange object during one pass: \<^verbatim>\<open>is_available\<close> and
  \<^verbatim>\<open>estimate_swap_gas\<close> are looked up with \<^verbatim>\<open>hasattr\<close>, so each may be absent
  (\<open>None\<close>); \<^verbatim>\<open>get_token_info\<close> is reduced to the \<^verbatim>\<open>'symbol'\<close> entry that the scanner
  reads.
\<close>

record dex =
  is_available :: "bool option"
  get_token_price :: "string \<Rightarrow> string + real option"
  get_token_info :: "string \<Rightarrow> string + string option"
  estimate_swap_gas :: "(int \<Rightarrow> string list \<Rightarrow> string \<Rightarrow> string + int option) option"

record multi_dex_scanner =
  dexes :: "(string \<times> dex) list"
  monitor_tokens :: "string list"
  recent_opportunities :: "arbitrage_opportunity list"
  scanner_max_cache_size :: int

text \<open>
  \<^verbatim>\<open>_get_gas_price\<close>: the argument is the outcome of reading \<^verbatim>\<open>w3.eth.gas_price\<close>.
\<close>

definition get_gas_price :: "string + int \<Rightarrow> int" where
  "get_gas_price w3_gas_price =
     (case w3_gas_price of Inl e \<Rightarrow> 10000000000 | Inr p \<Rightarrow> p)"

text \<open>
  One leg of \<^verbatim>\<open>_estimate_arbitrage_gas\<close>: what the leg adds to \<^verbatim>\<open>total_gas\<close>. An
  exception or \<^verbatim>\<open>None\<close> from the exchange adds nothing.
\<close>

definition leg_gas :: "string + int option \<Rightarrow> int" where
  "leg_gas r = (case r of Inl e \<Rightarrow> 0 | Inr None \<Rightarrow> 0 | Inr (Some g) \<Rightarrow> g)"

text \<open>
  \<^verbatim>\<open>_estimate_arbitrage_gas\<close>. A name missing from \<^verbatim>\<open>self.dexes\<close> raises \<^verbatim>\<open>KeyError\<close>,
  the read of \<^verbatim>\<open>Config.WETH_ADDRESS\<close> for the buy path raises \<^verbatim>\<open>AttributeError\<close> when
  the attribute is absent, and an exchange without \<^verbatim>\<open>estimate_swap_gas\<close> leaves its
  task \<^verbatim>\<open>None\<close>, which \<^verbatim>\<open>asyncio.gather\<close> refuses with \<^verbatim>\<open>TypeError\<close>; all three
  reach the outer handler, which returns twice the default gas limit.
\<close>

definition estimate_arbitrage_gas ::
  "config \<Rightarrow> multi_dex_scanner \<Rightarrow> string \<Rightarrow> string \<Rightarrow> string \<Rightarrow> int" where
  "estimate_arbitrage_gas cfg sc tok buy_dex sell_dex =
     (case (map_of (dexes sc) buy_dex, map_of (dexes sc) sell_dex) of
        (Some buy_dex_obj, Some sell_dex_obj) \<Rightarrow>
          (case WETH_ADDRESS cfg of
             None \<Rightarrow> DEFAULT_GAS_LIMIT cfg * 2
           | Some weth \<Rightarrow>
               (let sample_address = ''0x1234567890123456789012345678901234567890'';
                    amount_in = 10000000000000000;
                    buy_path = [weth, tok];
                    sell_path = [tok, weth];
                    token_amount = 1000000
                in case (estimate_swap_gas buy_dex_obj, estimate_swap_gas sell_dex_obj) of
                     (Some buy_est, Some sell_est) \<Rightarrow>
                       (let total_gas = leg_gas (buy_est amount_in buy_path sample_address)
                                      + leg_gas (sell_est token_amount sell_path sample_address)
                        in if total_gas \<noteq> 0 then total_gas else DEFAULT_GAS_LIMIT cfg * 2)
                   | _ \<Rightarrow> DEFAULT_GAS_LIMIT cfg * 2))
      | _ \<Rightarrow> DEFAULT_GAS_LIMIT cfg * 2)"

text \<open>
  The body of the token loop of \<^verbatim>\<open>_scan_dex_pair\<close> for one token: \<open>None\<close> when the
  token is skipped (\<^verbatim>\<open>continue\<close>, a failed test, or an exception caught by the loop's
  handler), the opportunity that is appended otherwise.
\<close>

definition scan_token ::
  "config \<Rightarrow> multi_dex_scanner \<Rightarrow> string + int \<Rightarrow> datetime \<Rightarrow>
   dex \<Rightarrow> dex \<Rightarrow> string \<Rightarrow> string \<Rightarrow> string \<Rightarrow> arbitrage_opportunity option" where
  "scan_token cfg sc w3_gas_price now dexa dexb dex_a_name dex_b_name tok =
     (case (get_token_price dexa tok, get_token_price dexb tok) of
        (Inr (Some pa), Inr (Some pb)) \<Rightarrow>
          if pa > 0 \<and> pb > 0 then
            (let price_diff_pct = \<bar>pa - pb\<bar> / min pa pb * 100 in
             if price_diff_pct > MIN_PROFIT_THRESHOLD cfg then
               (let (buy_dex, sell_dex, buy_price, sell_price) =
                      (if pa < pb then (dex_a_name, dex_b_name, pa, pb)
                       else (dex_b_name, dex_a_name, pb, pa));
                    gas_est = estimate_arbitrage_gas cfg sc tok buy_dex sell_dex;
                    trade_amount = 0.1;
                    gross_profit = (sell_price - buy_price) * trade_amount;
                    gas_cost_eth = real_of_int (gas_est * get_gas_price w3_gas_price) / 10 ^ 18;
                    net = gross_profit - gas_cost_eth;
                    executable = (net > 0.001)
                in case get_token_info dexa tok of
                     Inl e \<Rightarrow> None
                   | Inr token_info \<Rightarrow>
                       Some \<lparr>opp_token_address = tok,
                             token_symbol = (case token_info of Some symb \<Rightarrow> symb | None \<Rightarrow> ''UNKNOWN''),
                             dex_a = buy_dex, dex_b = sell_dex,
                             price_a = buy_price, price_b = sell_price,
                             profit_percentage = price_diff_pct,
                             gas_estimate = gas_est, net_profit = net,
                             is_executable = executable, discovered_at = now\<rparr>)
             else None)
          else None
      | _ \<Rightarrow> None)"

fun scan_tokens ::
  "config \<Rightarrow> multi_dex_scanner \<Rightarrow> string + int \<Rightarrow> datetime \<Rightarrow>
   dex \<Rightarrow> dex \<Rightarrow> string \<Rightarrow> string \<Rightarrow> string list \<Rightarrow> arbitrage_opportunity list" where
  "scan_tokens cfg sc gp now dexa dexb na nb [] = []"
| "scan_tokens cfg sc gp now dexa dexb na nb (tok # toks) =
     (case scan_token cfg sc gp now dexa dexb na nb tok of
        None \<Rightarrow> scan_tokens cfg sc gp now dexa dexb na nb toks
      | Some opp \<Rightarrow> opp # scan_tokens cfg sc gp now dexa dexb na nb toks)"

definition scan_dex_pair ::
  "config \<Rightarrow> multi_dex_scanner \<Rightarrow> string + int \<Rightarrow> datetime \<Rightarrow>
   dex \<Rightarrow> dex \<Rightarrow> string \<Rightarrow> string \<Rightarrow> arbitrage_opportunity list" where
  "scan_dex_pair cfg sc gp now dexa dexb dex_a_name dex_b_name =
     scan_tokens cfg sc gp now dexa dexb dex_a_name dex_b_name (monitor_tokens sc)"

text \<open>The index pairs \<open>i < j\<close> of the two nested \<^verbatim>\<open>range\<close> loops, in their order.\<close>

fun dex_pairs :: "'a list \<Rightarrow> ('a \<times> 'a) list" where
  "dex_pairs [] = []"
| "dex_pairs (x # xs) = map (Pair x) xs @ dex_pairs xs"

definition available :: "dex \<Rightarrow> bool" where
  "available d = (case is_available d of None \<Rightarrow> True | Some b \<Rightarrow> b)"

definition scan_arbitrage_opportunities ::
  "config \<Rightarrow> multi_dex_scanner \<Rightarrow> string + int \<Rightarrow> datetime \<Rightarrow> arbitrage_opportunity list" where
  "scan_arbitrage_opportunities cfg sc gp now =
     concat (map (\<lambda>((dex_a_name, dexa), (dex_b_name, dexb)).
                    if available dexa \<and> available dexb
                    then scan_dex_pair cfg sc gp now dexa dexb dex_a_name dex_b_name
                    else [])
                 (dex_pairs (dexes sc)))"

text \<open>The cache update of \<^verbatim>\<open>_scan_loop\<close> for the profitable opportunities of one pass.\<close>

definition add_to_cache ::
  "multi_dex_scanner \<Rightarrow> arbitrage_opportunity list \<Rightarrow> multi_dex_scanner" where
  "add_to_cache sc profitable_opps =
     (if profitable_opps \<noteq> [] then
        (let extended = recent_opportunities sc @ profitable_opps in
         if int (length extended) > scanner_max_cache_size sc
         then sc\<lparr>recent_opportunities := py_slice_from extended (- scanner_max_cache_size sc)\<rparr>
         else sc\<lparr>recent_opportunities := extended\<rparr>)
      else sc)"

text \<open>One iteration of \<^verbatim>\<open>_scan_loop\<close>, up to the sleep.\<close>

definition scan_loop_pass ::
  "config \<Rightarrow> multi_dex_scanner \<Rightarrow> string + int \<Rightarrow> datetime \<Rightarrow> multi_dex_scanner" where
  "scan_loop_pass cfg sc gp now =
     (let opportunities = scan_arbitrage_opportunities cfg sc gp now;
          profitable_opps =
            filter (\<lambda>opp. profit_percentage opp > MIN_PROFIT_THRESHOLD cfg \<and> is_executable opp)
                   opportunities
      in add_to_cache sc profitable_opps)"

definition get_recent_opportunities ::
  "multi_dex_scanner \<Rightarrow> int \<Rightarrow> arbitrage_opportunity list" where
  "get_recent_opportunities sc limit = py_slice_from (recent_opportunities sc) (- limit)"


section \<open>dex/kumbaya.py and sniper/executor.py: the snipe executor\<close>

record snipe_request =
  user_id :: int
  req_token_address :: string
  amount_eth :: real
  max_slippage_percent :: real
  wallet_address :: string
  request_time :: datetime
  priority_fee :: "real option"

record snipe_result =
  success :: bool
  result_transaction_hash :: "string option"
  error_message :: "string option"
  gas_used :: "int option"
  gas_cost :: "real option"
  token_amount_received :: "real option"
  actual_slippage :: "real option"
  execution_time :: real

text \<open>The transaction dictionary that \<^verbatim>\<open>build_swap_transaction\<close> returns.\<close>

record tx_data =
  tx_value :: int
  tx_amount_out_min :: int
  tx_path :: "string list"
  tx_to :: string
  tx_gas :: int
  tx_gasPrice :: int

text \<open>
  The answers of the chain and of \<^verbatim>\<open>KumbayaDEX\<close> while one request is executed.
  \<^verbatim>\<open>check_liquidity\<close>, \<^verbatim>\<open>simulate_honeypot\<close>, \<^verbatim>\<open>get_amounts_out\<close> and
  \<^verbatim>\<open>build_swap_transaction\<close> catch their own exceptions; \<^verbatim>\<open>get_token_info\<close>, the two
  reads of \<^verbatim>\<open>eth.gas_price\<close> and \<^verbatim>\<open>eth.estimate_gas\<close> may raise. The amounts that
  the router returns are \<^verbatim>\<open>uint256\<close> values. \<^verbatim>\<open>build_swap_transaction\<close> returns an empty
  dictionary on failure, which is \<open>None\<close> here. \<open>env_elapsed\<close> is the time between the
  two clock readings of \<^verbatim>\<open>_execute_snipe\<close>.
\<close>

record exec_env =
  env_check_liquidity :: "string \<Rightarrow> real \<Rightarrow> bool"
  env_simulate_honeypot :: "string \<Rightarrow> bool"
  env_gas_price_check :: "string + int"
  env_gas_price_optimal :: "string + int"
  env_get_token_info :: "string \<Rightarrow> string + string option"
  env_get_amounts_out :: "int \<Rightarrow> string list \<Rightarrow> 256 word list option"
  env_build_swap_transaction :: "int \<Rightarrow> int \<Rightarrow> string list \<Rightarrow> string \<Rightarrow> tx_data option"
  env_estimate_gas :: "tx_data \<Rightarrow> string + int"
  env_elapsed :: real

text \<open>
  \<^verbatim>\<open>SniperExecutor\<close>. The queue is an \<^verbatim>\<open>asyncio.Queue\<close>: its items in order and its
  \<^verbatim>\<open>maxsize\<close>, where \<^verbatim>\<open>maxsize <= 0\<close> means that the queue is never full.
\<close>

record sniper_executor =
  execution_queue :: "snipe_request list"
  queue_maxsize :: int
  max_concurrent_snipes :: int
  max_gas_price :: int
  priority_fee_multiplier :: real
  active_snipes :: "string \<rightharpoonup> snipe_request"
  snipe_results :: "string \<rightharpoonup> snipe_result"

text \<open>\<^verbatim>\<open>__init__\<close>: the queue is \<^verbatim>\<open>asyncio.Queue()\<close>, whose \<^verbatim>\<open>maxsize\<close> is 0.\<close>

definition SniperExecutor_init :: "config \<Rightarrow> sniper_executor" where
  "SniperExecutor_init cfg =
     \<lparr>execution_queue = [], queue_maxsize = 0, max_concurrent_snipes = 5,
      max_gas_price = MAX_GAS_PRICE cfg, priority_fee_multiplier = round_to_double 1.2,
      active_snipes = Map.empty, snipe_results = Map.empty\<rparr>"

definition queue_full :: "sniper_executor \<Rightarrow> bool" where
  "queue_full ex =
     (if queue_maxsize ex \<le> 0 then False
      else int (length (execution_queue ex)) \<ge> queue_maxsize ex)"

text \<open>
  \<^verbatim>\<open>f"snipe_{user_id}_{int(request_time.timestamp())}"\<close>
\<close>

definition request_id :: "snipe_request \<Rightarrow> string" where
  "request_id r =
     ''snipe_'' @ str_int (user_id r) @ ''_'' @ str_int (py_int (request_time r))"

text \<open>
  \<^verbatim>\<open>submit_snipe\<close>. \<^verbatim>\<open>await queue.put\<close> appends unless the queue is full, in which case
  it suspends until a consumer makes room: that outcome is \<open>None\<close>, after the
  assignment to \<^verbatim>\<open>active_snipes\<close> has already happened.
\<close>

definition submit_snipe ::
  "sniper_executor \<Rightarrow> snipe_request \<Rightarrow> (string \<times> sniper_executor) option" where
  "submit_snipe ex r =
     (let rid = request_id r;
          ex1 = ex\<lparr>active_snipes := (active_snipes ex)(rid \<mapsto> r)\<rparr>
      in if queue_full ex1 then None
         else Some (rid, ex1\<lparr>execution_queue := execution_queue ex1 @ [r]\<rparr>))"

text \<open>
  \<^verbatim>\<open>KumbayaDEX.calculate_slippage\<close>, for a finite \<^verbatim>\<open>slippage_percent\<close>. The product
  \<^verbatim>\<open>expected_out * slippage_multiplier\<close> converts the integer to a float first. An
  exception (the conversion of an infinite product to \<^verbatim>\<open>int\<close>) is caught by the
  function's handler, which returns 0.
\<close>

definition calculate_slippage :: "exec_env \<Rightarrow> int \<Rightarrow> string list \<Rightarrow> real \<Rightarrow> int" where
  "calculate_slippage env amount_in path slippage_percent =
     (case env_get_amounts_out env amount_in path of
        None \<Rightarrow> 0
      | Some amounts \<Rightarrow>
          if amounts = [] then 0
          else
            let expected_out = uint (last amounts);
                slippage_multiplier = float_div (float_sub 100 slippage_percent) 100
            in case int_to_float expected_out of
                 None \<Rightarrow> 0
               | Some expected \<Rightarrow>
                   (case float_to_int (float_mul expected slippage_multiplier) of
                      None \<Rightarrow> 0
                    | Some min_out \<Rightarrow> min_out))"

definition pre_execution_checks :: "sniper_executor \<Rightarrow> exec_env \<Rightarrow> snipe_request \<Rightarrow> bool" where
  "pre_execution_checks ex env r =
     (if \<not> env_check_liquidity env (req_token_address r) (amount_eth r * 0.5) then False
      else if env_simulate_honeypot env (req_token_address r) then False
      else case env_gas_price_check env of
             Inl e \<Rightarrow> False
           | Inr current_gas_price \<Rightarrow>
               if current_gas_price > max_gas_price ex then False else True)"

definition get_optimal_gas_price :: "sniper_executor \<Rightarrow> exec_env \<Rightarrow> int" where
  "get_optimal_gas_price ex env =
     (case env_gas_price_optimal env of
        Inl e \<Rightarrow> 10000000000
      | Inr base_gas_price \<Rightarrow>
          (case int_to_float base_gas_price of
             None \<Rightarrow> 10000000000
           | Some base \<Rightarrow>
               (case float_to_int (float_mul base (Finite (priority_fee_multiplier ex))) of
                  None \<Rightarrow> 10000000000
                | Some optimal_gas_price \<Rightarrow> min optimal_gas_price (max_gas_price ex))))"

definition failed_result :: "string \<Rightarrow> real \<Rightarrow> snipe_result" where
  "failed_result msg t =
     \<lparr>success = False, result_transaction_hash = None, error_message = Some msg,
      gas_used = None, gas_cost = None, token_amount_received = None,
      actual_slippage = None, execution_time = t\<rparr>"

text \<open>
  \<^verbatim>\<open>_execute_snipe\<close>: the returned result and the executor afterwards. Every exception
  is caught by the function's handler, which returns a failed result with the
  exception's message: an exception of \<^verbatim>\<open>get_token_info\<close> or \<^verbatim>\<open>estimate_gas\<close>, the
  \<^verbatim>\<open>OverflowError\<close> of \<^verbatim>\<open>int(amount_eth * 1e18)\<close> and of the gas cost, and the
  \<^verbatim>\<open>AttributeError\<close> of \<^verbatim>\<open>Config.WETH_ADDRESS\<close> when the attribute is absent. The
  pending trade is handed to \<^verbatim>\<open>database.create_trade\<close>, which catches its own
  exceptions and whose answer is not used, so it has no part in either.
\<close>

definition execute_snipe ::
  "config \<Rightarrow> sniper_executor \<Rightarrow> exec_env \<Rightarrow> snipe_request \<Rightarrow> snipe_result \<times> sniper_executor" where
  "execute_snipe cfg ex env r =
     (if \<not> pre_execution_checks ex env r
      then (failed_result ''Pre-execution checks failed'' 0, ex)
      else case env_get_token_info env (req_token_address r) of
        Inl e \<Rightarrow> (failed_result e (env_elapsed env), ex)
      | Inr None \<Rightarrow> (failed_result ''Failed to get token info'' 0, ex)
      | Inr (Some symbol) \<Rightarrow>
          (case float_to_int (float_mul (amount_eth r) (Finite (10 ^ 18))) of
             None \<Rightarrow>
               (failed_result ''cannot convert float infinity to integer'' (env_elapsed env), ex)
           | Some amount_in_wei \<Rightarrow>
               (case WETH_ADDRESS cfg of
                  None \<Rightarrow> (failed_result weth_attribute_error (env_elapsed env), ex)
                | Some weth \<Rightarrow>
                    (let path = [weth, req_token_address r];
                         min_out =
                           calculate_slippage env amount_in_wei path (max_slippage_percent r)
                     in case env_build_swap_transaction env amount_in_wei min_out path
                               (wallet_address r) of
                          None \<Rightarrow> (failed_result ''Failed to build transaction'' 0, ex)
                        | Some tx \<Rightarrow>
                            (case env_estimate_gas env tx of
                               Inl e \<Rightarrow> (failed_result e (env_elapsed env), ex)
                             | Inr gas_est \<Rightarrow>
                                 (let gas_price = get_optimal_gas_price ex env in
                                  case int_to_float (gas_est * gas_price) of
                                    None \<Rightarrow>
                                      (failed_result ''int too large to convert to float''
                                         (env_elapsed env), ex)
                                  | Some wei \<Rightarrow>
                                      (let result =
                                         \<lparr>success = True, result_transaction_hash = None,
                                          error_message = None, gas_used = Some gas_est,
                                          gas_cost = Some (round_to_double (wei / 10 ^ 18)),
                                          token_amount_received = None,
                                          actual_slippage = None,
                                          execution_time = env_elapsed env\<rparr>
                                       in (result,
                                           ex\<lparr>snipe_results :=
                                                (snipe_results ex)(request_id r \<mapsto> result)\<rparr>))))))))"

text \<open>
  One iteration of \<^verbatim>\<open>_execution_loop\<close>: an empty queue times out and changes nothing;
  otherwise the oldest request is taken and executed, and the returned result is dropped.
\<close>

definition execution_loop_step :: "config \<Rightarrow> sniper_executor \<Rightarrow> exec_env \<Rightarrow> sniper_executor" where
  "execution_loop_step cfg ex env =
     (case execution_queue ex of
        [] \<Rightarrow> ex
      | r # rest \<Rightarrow> snd (execute_snipe cfg (ex\<lparr>execution_queue := rest\<rparr>) env r))"

fun execution_loop :: "config \<Rightarrow> sniper_executor \<Rightarrow> exec_env list \<Rightarrow> sniper_executor" where
  "execution_loop cfg ex [] = ex"
| "execution_loop cfg ex (env # envs) = execution_loop cfg (execution_loop_step cfg ex env) envs"

text \<open>\<^verbatim>\<open>get_snipe_status\<close>: the stored result, or \<^verbatim>\<open>None\<close>.\<close>

definition get_snipe_status :: "sniper_executor \<Rightarrow> string \<Rightarrow> snipe_result option" where
  "get_snipe_status ex rid = snipe_results ex rid"


section \<open>Terms of the specification\<close>

text \<open>The last \<open>n\<close> items of a list (all of them when there are fewer).\<close>

definition last_n :: "nat \<Rightarrow> 'a list \<Rightarrow> 'a list" where
  "last_n n xs = drop (length xs - n) xs"

text \<open>
  The launch that an event inserts into the cache, if the monitor accepts it, and the
  launches inserted by a sequence of events.
\<close>

definition launch_of :: "token_monitor \<Rightarrow> pair_created_event \<times> datetime \<Rightarrow> token_launch option" where
  "launch_of m evn =
     (case new_token_address (fst evn) of
        None \<Rightarrow> None
      | Some tok \<Rightarrow>
          if should_process_token m tok then Some (TokenLaunch tok (fst evn) (snd evn)) else None)"

definition accepted_launches ::
  "token_monitor \<Rightarrow> (pair_created_event \<times> datetime) list \<Rightarrow> token_launch list" where
  "accepted_launches m evs = List.map_filter (launch_of m) evs"


section \<open>Example inputs\<close>

definition example_event :: pair_created_event where
  "example_event =
     \<lparr>ev_token0 = ''0xEeeeeEeeeEeEeeEeEeEeeEEEeeeeEeeeeeeeEEeE'',
      ev_token1 = ''0x00000000000000000000000000000000000000a1'',
      ev_pair = ''0x00000000000000000000000000000000000000b2'',
      ev_allPairsLength = 7, ev_blockNumber = 1000,
      ev_transactionHash = ''0xc3''\<rparr>"

definition example_opportunity :: "real \<Rightarrow> arbitrage_opportunity" where
  "example_opportunity np =
     \<lparr>opp_token_address = ''0x00000000000000000000000000000000000000a1'',
      token_symbol = ''TKN'', dex_a = ''kumbaya'', dex_b = ''prismfi'',
      price_a = 1, price_b = 1.05, profit_percentage = 5, gas_estimate = 50000,
      net_profit = np, is_executable = True, discovered_at = 0\<rparr>"

text \<open>An exchange that quotes every token at \<open>p\<close> and estimates \<open>g\<close> gas per swap.\<close>

definition example_dex :: "real \<Rightarrow> int \<Rightarrow> dex" where
  "example_dex p g =
     \<lparr>is_available = None,
      get_token_price = (\<lambda>tok. Inr (Some p)),
      get_token_info = (\<lambda>tok. Inr (Some ''TKN'')),
      estimate_swap_gas = Some (\<lambda>amount path addr. Inr (Some g))\<rparr>"

definition dex_X :: dex where
  "dex_X = example_dex 1 25000"

definition dex_Y :: dex where
  "dex_Y = example_dex 1.05 25000"

definition example_scanner :: multi_dex_scanner where
  "example_scanner =
     \<lparr>dexes = [(''X'', dex_X), (''Y'', dex_Y)],
      monitor_tokens = [''0x00000000000000000000000000000000000000a1''],
      recent_opportunities = [], scanner_max_cache_size = 100\<rparr>"

definition example_request :: "string \<Rightarrow> datetime \<Rightarrow> snipe_request" where
  "example_request tok t =
     \<lparr>user_id = 7, req_token_address = tok, amount_eth = 0.1,
      max_slippage_percent = 5,
      wallet_address = ''0x00000000000000000000000000000000000000d4'',
      request_time = t, priority_fee = None\<rparr>"

text \<open>Two requests of the same user, submitted within the same second.\<close>

definition first_request :: snipe_request where
  "first_request = example_request ''0x00000000000000000000000000000000000000a1'' 1700.2"

definition second_request :: snipe_request where
  "second_request = example_request ''0x00000000000000000000000000000000000000a2'' 1700.7"

definition example_executor :: sniper_executor where
  "example_executor = SniperExecutor_init Config"

text \<open>
  Answers of the chain and of the exchange for one execution: the router quotes 1000
  for the last hop, and \<open>liq\<close> is the answer of the liquidity check.
\<close>

definition example_env :: "bool \<Rightarrow> exec_env" where
  "example_env liq =
     \<lparr>env_check_liquidity = (\<lambda>tok min_liq. liq),
      env_simulate_honeypot = (\<lambda>tok. False),
      env_gas_price_check = Inr 1000000000,
      env_gas_price_optimal = Inr 1000000000,
      env_get_token_info = (\<lambda>tok. Inr (Some ''TKN'')),
      env_get_amounts_out = (\<lambda>amount path. Some [word_of_int amount, 1000]),
      env_build_swap_transaction =
        (\<lambda>amount_in min_out path to_address.
           Some \<lparr>tx_value = amount_in, tx_amount_out_min = min_out, tx_path = path,
                 tx_to = to_address, tx_gas = 300000, tx_gasPrice = 1100000000\<rparr>),
      env_estimate_gas = (\<lambda>tx. Inr 150000),
      env_elapsed = 0.25\<rparr>"


section \<open>Slices and the last items of a list\<close>

lemma py_slice_from_neg: "0 < n \<Longrightarrow> py_slice_from xs (- n) = last_n (nat n) xs"
  by (simp add: py_slice_from_def last_n_def nat_diff_distrib')

lemma last_n_all: "length xs \<le> n \<Longrightarrow> last_n n xs = xs"
  by (simp add: last_n_def)

lemma length_last_n: "length (last_n n xs) = min n (length xs)"
  by (simp add: last_n_def)

lemma last_n_rev: "last_n n xs = rev (take n (rev xs))"
  by (simp add: last_n_def rev_take)

lemma last_n_append_last_n: "last_n n (last_n n xs @ ys) = last_n n (xs @ ys)"
  by (simp add: last_n_rev min_def)

lemma last_n_last_n: "k \<le> n \<Longrightarrow> last_n k (last_n n xs) = last_n k xs"
  by (simp add: last_n_rev min_def)

lemma truncate_eq:
  "0 < n \<Longrightarrow> (if int (length xs) > n then py_slice_from xs (- n) else xs) = last_n (nat n) xs"
  by (auto simp: py_slice_from_neg last_n_all)


section \<open>The recent-launch cache\<close>

lemma handle_accepted:
  assumes "new_token_address ev = Some tok" "should_process_token m tok" "0 < max_cache_size m"
  shows "handle_pair_created_event m ev now =
         m\<lparr>recent_launches :=
             last_n (nat (max_cache_size m)) (recent_launches m @ [TokenLaunch tok ev now])\<rparr>"
  using assms truncate_eq[of "max_cache_size m" "recent_launches m @ [TokenLaunch tok ev now]"]
  by (auto simp add: handle_pair_created_event_def Let_def split: if_splits)

lemma handle_rejected:
  "launch_of m (ev, now) = None \<Longrightarrow> handle_pair_created_event m ev now = m"
  by (auto simp: launch_of_def handle_pair_created_event_def split: option.splits if_splits)

lemma handle_launch_of:
  assumes "launch_of m (ev, now) = Some l" "0 < max_cache_size m"
  shows "handle_pair_created_event m ev now =
         m\<lparr>recent_launches := last_n (nat (max_cache_size m)) (recent_launches m @ [l])\<rparr>"
  using assms handle_accepted[of ev _ m now]
  by (auto simp: launch_of_def split: option.splits if_splits)

lemma should_process_token_cache:
  "should_process_token (m\<lparr>recent_launches := xs\<rparr>) tok = should_process_token m tok"
  by (simp add: should_process_token_def)

lemma launch_of_cache:
  "launch_of (m\<lparr>recent_launches := xs\<rparr>) = launch_of m"
  by (rule ext) (simp add: launch_of_def should_process_token_def split: option.splits)

lemma handle_events_cache:
  assumes "0 < max_cache_size m" "int (length (recent_launches m)) \<le> max_cache_size m"
  shows "handle_events m evs =
         m\<lparr>recent_launches :=
             last_n (nat (max_cache_size m)) (recent_launches m @ accepted_launches m evs)\<rparr>"
  using assms
proof (induction evs arbitrary: m)
  case Nil
  then show ?case by (simp add: accepted_launches_def List.map_filter_simps last_n_all)
next
  case (Cons evn evs)
  obtain ev now where evn: "evn = (ev, now)" by (cases evn)
  show ?case
  proof (cases "launch_of m (ev, now)")
    case None
    then show ?thesis
      using Cons evn by (simp add: handle_rejected accepted_launches_def List.map_filter_simps)
  next
    case (Some l)
    let ?m' = "m\<lparr>recent_launches := last_n (nat (max_cache_size m)) (recent_launches m @ [l])\<rparr>"
    have step: "handle_pair_created_event m ev now = ?m'"
      using Some Cons.prems by (simp add: handle_launch_of)
    have "handle_events ?m' evs =
          ?m'\<lparr>recent_launches :=
               last_n (nat (max_cache_size ?m')) (recent_launches ?m' @ accepted_launches ?m' evs)\<rparr>"
      using Cons.prems by (intro Cons.IH) (simp_all add: length_last_n)
    then show ?thesis
      using Some evn step
      by (simp add: launch_of_cache last_n_append_last_n
                    accepted_launches_def List.map_filter_simps)
  qed
qed

lemma new_token_address_example:
  "new_token_address example_event = Some ''0x00000000000000000000000000000000000000a1''"
  by (simp add: new_token_address_def example_event_def weth_address_def)

lemma should_process_token_init: "should_process_token TokenMonitor_init tok"
  by (simp add: should_process_token_def TokenMonitor_init_def)

text \<open>
  Claim C1 as stated does not hold: \<^verbatim>\<open>_handle_pair_created_event\<close> never looks a pair
  address up in the cache. The same event delivered twice to a fresh monitor leaves two
  entries with the same pair address, and \<^verbatim>\<open>get_recent_launches\<close> shows both.
\<close>

theorem duplicate_pair_event_cached_twice:
  "map pair_address
     (get_recent_launches
        (handle_pair_created_event (handle_pair_created_event TokenMonitor_init example_event 1)
           example_event 2) 20) =
   [''0x00000000000000000000000000000000000000b2'',
    ''0x00000000000000000000000000000000000000b2'']"
  by (simp add: handle_pair_created_event_def new_token_address_example should_process_token_def
      TokenMonitor_init_def get_recent_launches_def py_slice_from_def TokenLaunch_def Let_def)
     (simp add: example_event_def)

text \<open>
  Claim C1, amended: every accepted pair-created event gets a cache entry of its own,
  whatever pair addresses are cached already. After two accepted events (in particular
  two events for the same pair address) on a monitor whose capacity is at least 2, the
  two newest entries that \<^verbatim>\<open>get_recent_launches\<close> returns are the launches of these two
  events, in arrival order.
\<close>

theorem accepted_events_each_cached:
  assumes "new_token_address ev1 = Some t1" "should_process_token m t1"
    and "new_token_address ev2 = Some t2" "should_process_token m t2"
    and "2 \<le> max_cache_size m"
  shows "get_recent_launches
           (handle_pair_created_event (handle_pair_created_event m ev1 now1) ev2 now2) 2 =
         [TokenLaunch t1 ev1 now1, TokenLaunch t2 ev2 now2]"
proof -
  let ?n = "nat (max_cache_size m)"
  let ?m1 = "m\<lparr>recent_launches := last_n ?n (recent_launches m @ [TokenLaunch t1 ev1 now1])\<rparr>"
  have pos: "0 < max_cache_size m" and two: "2 \<le> ?n" using assms(5) by simp_all
  have s1: "handle_pair_created_event m ev1 now1 = ?m1"
    using assms(1,2) pos by (rule handle_accepted)
  have ok2: "should_process_token ?m1 t2"
    using assms(4) by (simp add: should_process_token_cache)
  have s2: "recent_launches (handle_pair_created_event ?m1 ev2 now2) =
        last_n ?n (recent_launches m @ [TokenLaunch t1 ev1 now1, TokenLaunch t2 ev2 now2])"
    using handle_accepted[OF assms(3) ok2, of now2] pos
    by (simp add: last_n_append_last_n)
  have "get_recent_launches (handle_pair_created_event ?m1 ev2 now2) 2 =
        last_n 2 (recent_launches m @ [TokenLaunch t1 ev1 now1, TokenLaunch t2 ev2 now2])"
    unfolding get_recent_launches_def s2
    by (subst py_slice_from_neg[of 2, simplified]) (rule last_n_last_n[OF two])
  then show ?thesis by (simp add: s1 last_n_def)
qed

theorem accepted_events_each_cached_witness:
  "get_recent_launches
     (handle_pair_created_event (handle_pair_created_event TokenMonitor_init example_event 1)
        example_event 2) 2 =
   [TokenLaunch ''0x00000000000000000000000000000000000000a1'' example_event 1,
    TokenLaunch ''0x00000000000000000000000000000000000000a1'' example_event 2]"
  using accepted_events_each_cached[OF new_token_address_example should_process_token_init
      new_token_address_example should_process_token_init, of 1 2]
  by (simp add: TokenMonitor_init_def)


section \<open>The bounded caches\<close>

lemma length_last_n_le: "0 < n \<Longrightarrow> int (length (last_n (nat n) xs)) \<le> n"
  unfolding length_last_n by linarith

lemma add_to_cache_eq:
  assumes "0 < scanner_max_cache_size sc"
    "int (length (recent_opportunities sc)) \<le> scanner_max_cache_size sc"
  shows "add_to_cache sc opps =
     sc\<lparr>recent_opportunities :=
          last_n (nat (scanner_max_cache_size sc)) (recent_opportunities sc @ opps)\<rparr>"
proof (cases "opps = []")
  case True
  then show ?thesis using assms by (simp add: add_to_cache_def last_n_all)
next
  case False
  then show ?thesis
    using assms(1) truncate_eq[of "scanner_max_cache_size sc" "recent_opportunities sc @ opps"]
    by (auto simp: add_to_cache_def Let_def split: if_splits)
qed

lemma foldl_add_to_cache:
  assumes "0 < scanner_max_cache_size sc"
    "int (length (recent_opportunities sc)) \<le> scanner_max_cache_size sc"
  shows "foldl add_to_cache sc batches =
     sc\<lparr>recent_opportunities :=
          last_n (nat (scanner_max_cache_size sc)) (recent_opportunities sc @ concat batches)\<rparr>"
  using assms
proof (induction batches arbitrary: sc)
  case Nil
  then show ?case by (simp add: last_n_all)
next
  case (Cons b bs)
  let ?sc' = "sc\<lparr>recent_opportunities :=
          last_n (nat (scanner_max_cache_size sc)) (recent_opportunities sc @ b)\<rparr>"
  have step: "add_to_cache sc b = ?sc'" using Cons.prems by (rule add_to_cache_eq)
  have "foldl add_to_cache ?sc' bs =
     ?sc'\<lparr>recent_opportunities :=
          last_n (nat (scanner_max_cache_size ?sc')) (recent_opportunities ?sc' @ concat bs)\<rparr>"
    using Cons.prems by (intro Cons.IH) (simp_all add: length_last_n)
  then show ?case by (simp add: step last_n_append_last_n)
qed

lemma caches_hold_last_items:
  "(0 < max_cache_size m \<and> int (length (recent_launches m)) \<le> max_cache_size m \<longrightarrow>
      recent_launches (handle_events m evs) =
        last_n (nat (max_cache_size m)) (recent_launches m @ accepted_launches m evs) \<and>
      int (length (recent_launches (handle_events m evs))) \<le> max_cache_size m) \<and>
   (0 < scanner_max_cache_size sc \<and>
    int (length (recent_opportunities sc)) \<le> scanner_max_cache_size sc \<longrightarrow>
      recent_opportunities (foldl add_to_cache sc batches) =
        last_n (nat (scanner_max_cache_size sc)) (recent_opportunities sc @ concat batches) \<and>
      int (length (recent_opportunities (foldl add_to_cache sc batches)))
        \<le> scanner_max_cache_size sc)"
  by (simp add: handle_events_cache foldl_add_to_cache length_last_n_le)

lemma simulate_launches_cache:
  "length (recent_launches (simulate_launches m toks)) = length (recent_launches m) + length toks \<and>
   max_cache_size (simulate_launches m toks) = max_cache_size m"
  by (induction m toks rule: simulate_launches.induct)
     (simp_all add: simulate_launch_detection_def Let_def)

text \<open>
  Claim C2, evaluated where the code departs from it. The claim holds on the paths of
  \<^verbatim>\<open>_handle_pair_created_event\<close> and \<^verbatim>\<open>_scan_loop\<close>, which truncate the cache to its
  last \<open>N\<close> items after they append (lemma \<open>caches_hold_last_items\<close>). The third
  insertion path into the launch cache, \<^verbatim>\<open>simulate_launch_detection\<close>, appends and
  does not truncate: after 101 simulated launches a fresh monitor, whose capacity is
  100, holds 101 entries.
\<close>

theorem simulated_launches_exceed_capacity:
  "max_cache_size (simulate_launches TokenMonitor_init (replicate 101 (''0xa1'', 0))) = 100 \<and>
   length (recent_launches
     (simulate_launches TokenMonitor_init (replicate 101 (''0xa1'', 0)))) = 101"
  by (simp add: simulate_launches_cache TokenMonitor_init_def)


section \<open>The arbitrage scanner\<close>

lemma scan_token_quotes:
  assumes "get_token_price dexa tok = Inr (Some pa)" "get_token_price dexb tok = Inr (Some pb)"
    and "0 < pa" "0 < pb"
  shows "scan_token cfg sc gp now dexa dexb na nb tok =
     (if \<bar>pa - pb\<bar> / min pa pb * 100 > MIN_PROFIT_THRESHOLD cfg then
        (case get_token_info dexa tok of
           Inl e \<Rightarrow> None
         | Inr token_info \<Rightarrow>
             Some \<lparr>opp_token_address = tok,
                   token_symbol = (case token_info of Some symb \<Rightarrow> symb | None \<Rightarrow> ''UNKNOWN''),
                   dex_a = (if pa < pb then na else nb), dex_b = (if pa < pb then nb else na),
                   price_a = min pa pb, price_b = max pa pb,
                   profit_percentage = \<bar>pa - pb\<bar> / min pa pb * 100,
                   gas_estimate = estimate_arbitrage_gas cfg sc tok
                        (if pa < pb then na else nb) (if pa < pb then nb else na),
                   net_profit = (max pa pb - min pa pb) * 0.1
                      - real_of_int (estimate_arbitrage_gas cfg sc tok
                        (if pa < pb then na else nb) (if pa < pb then nb else na) * get_gas_price gp) / 10 ^ 18,
                   is_executable = ((max pa pb - min pa pb) * 0.1
                      - real_of_int (estimate_arbitrage_gas cfg sc tok
                        (if pa < pb then na else nb) (if pa < pb then nb else na) * get_gas_price gp) / 10 ^ 18
                      > 0.001),
                   discovered_at = now\<rparr>)
      else None)"
proof (cases "pa < pb")
  case True
  then show ?thesis using assms
    by (simp add: scan_token_def Let_def min_def max_def split: sum.splits)
next
  case False
  then show ?thesis using assms
    by (simp add: scan_token_def Let_def min_def max_def split: sum.splits)
qed

lemma scan_token_executable:
  "scan_token cfg sc gp now dexa dexb na nb tok = Some opp \<Longrightarrow>
   is_executable opp \<longleftrightarrow> net_profit opp > 0.001"
  by (auto simp: scan_token_def Let_def split: sum.splits option.splits if_splits prod.splits)

lemma scan_tokens_executable:
  "opp \<in> set (scan_tokens cfg sc gp now dexa dexb na nb toks) \<Longrightarrow>
   is_executable opp \<longleftrightarrow> net_profit opp > 0.001"
  by (induction toks) (auto split: option.splits dest: scan_token_executable)

lemma scan_arbitrage_executable:
  "opp \<in> set (scan_arbitrage_opportunities cfg sc gp now) \<Longrightarrow>
   is_executable opp \<longleftrightarrow> net_profit opp > 0.001"
  by (auto simp: scan_arbitrage_opportunities_def scan_dex_pair_def split: if_splits
      dest: scan_tokens_executable)

lemma set_py_slice_from: "set (py_slice_from xs i) \<subseteq> set xs"
  by (simp add: py_slice_from_def set_drop_subset)

lemma set_add_to_cache:
  "set (recent_opportunities (add_to_cache sc opps)) \<subseteq> set (recent_opportunities sc) \<union> set opps"
  using set_py_slice_from[of "recent_opportunities sc @ opps"]
  by (auto simp: add_to_cache_def Let_def)

lemma scan_tokens_iff:
  "opp \<in> set (scan_tokens cfg sc gp now dexa dexb na nb toks) \<longleftrightarrow>
   (\<exists>tok \<in> set toks. scan_token cfg sc gp now dexa dexb na nb tok = Some opp)"
  by (induction toks) (auto split: option.splits)

lemma scan_token_SomeD:
  assumes "scan_token cfg sc gp now dexa dexb na nb tok = Some opp"
  shows "\<exists>pa pb. get_token_price dexa tok = Inr (Some pa) \<and>
                 get_token_price dexb tok = Inr (Some pb) \<and> 0 < pa \<and> 0 < pb \<and>
                 opp_token_address opp = tok \<and>
                 profit_percentage opp = \<bar>pa - pb\<bar> / min pa pb * 100 \<and>
                 price_a opp = min pa pb \<and> price_b opp = max pa pb \<and>
                 dex_a opp = (if pa < pb then na else nb) \<and>
                 dex_b opp = (if pa < pb then nb else na)"
proof -
  obtain pa pb where q: "get_token_price dexa tok = Inr (Some pa)"
      "get_token_price dexb tok = Inr (Some pb)"
    using assms by (auto simp: scan_token_def split: sum.splits option.splits)
  have pos: "0 < pa" "0 < pb"
    using assms q by (auto simp: scan_token_def split: if_splits)
  show ?thesis
    using assms q pos unfolding scan_token_quotes[OF q pos]
    by (auto split: if_splits sum.splits)
qed

lemma scan_dex_pair_sound:
  assumes "opp \<in> set (scan_dex_pair cfg sc gp now dexa dexb na nb)"
  shows "\<exists>pa pb. get_token_price dexa (opp_token_address opp) = Inr (Some pa) \<and>
                 get_token_price dexb (opp_token_address opp) = Inr (Some pb) \<and>
                 0 < pa \<and> 0 < pb \<and>
                 opp_token_address opp \<in> set (monitor_tokens sc) \<and>
                 profit_percentage opp = \<bar>pa - pb\<bar> / min pa pb * 100 \<and>
                 price_a opp = min pa pb \<and> price_b opp = max pa pb \<and>
                 dex_a opp = (if pa < pb then na else nb) \<and>
                 dex_b opp = (if pa < pb then nb else na) \<and>
                 (pa \<noteq> pb \<longrightarrow> price_a opp < price_b opp)"
proof -
  obtain tok where tok: "tok \<in> set (monitor_tokens sc)"
      "scan_token cfg sc gp now dexa dexb na nb tok = Some opp"
    using assms by (auto simp: scan_dex_pair_def scan_tokens_iff)
  from scan_token_SomeD[OF tok(2)] obtain pa pb where
    "get_token_price dexa tok = Inr (Some pa)" "get_token_price dexb tok = Inr (Some pb)"
    "0 < pa" "0 < pb" "opp_token_address opp = tok"
    "profit_percentage opp = \<bar>pa - pb\<bar> / min pa pb * 100"
    "price_a opp = min pa pb" "price_b opp = max pa pb"
    "dex_a opp = (if pa < pb then na else nb)" "dex_b opp = (if pa < pb then nb else na)"
    by blast
  then show ?thesis using tok(1)
    by (intro exI[of _ pa] exI[of _ pb]) (auto simp: min_def max_def)
qed

lemma scan_dex_pair_complete:
  assumes "tok \<in> set (monitor_tokens sc)"
    and "get_token_price dexa tok = Inr (Some pa)" "get_token_price dexb tok = Inr (Some pb)"
    and "0 < pa" "0 < pb"
    and "\<bar>pa - pb\<bar> / min pa pb * 100 > MIN_PROFIT_THRESHOLD cfg"
    and "\<not> isl (get_token_info dexa tok)"
  shows "\<exists>opp \<in> set (scan_dex_pair cfg sc gp now dexa dexb na nb).
           opp_token_address opp = tok \<and>
           profit_percentage opp = \<bar>pa - pb\<bar> / min pa pb * 100 \<and>
           price_a opp = min pa pb \<and> price_b opp = max pa pb \<and>
           dex_a opp = (if pa < pb then na else nb) \<and>
           dex_b opp = (if pa < pb then nb else na)"
proof -
  obtain info where info: "get_token_info dexa tok = Inr info"
    using assms(7) by (cases "get_token_info dexa tok") simp_all
  obtain opp where opp: "scan_token cfg sc gp now dexa dexb na nb tok = Some opp"
    using assms(6) by (simp add: scan_token_quotes[OF assms(2-5)] info)
  then have "opp \<in> set (scan_dex_pair cfg sc gp now dexa dexb na nb)"
    using assms(1) by (auto simp: scan_dex_pair_def scan_tokens_iff)
  moreover have "opp_token_address opp = tok \<and>
           profit_percentage opp = \<bar>pa - pb\<bar> / min pa pb * 100 \<and>
           price_a opp = min pa pb \<and> price_b opp = max pa pb \<and>
           dex_a opp = (if pa < pb then na else nb) \<and>
           dex_b opp = (if pa < pb then nb else na)"
    using scan_token_SomeD[OF opp] assms(2,3) by auto
  ultimately show ?thesis by blast
qed

lemma scan_arbitrage_pair:
  assumes "opp \<in> set (scan_arbitrage_opportunities cfg sc gp now)"
  shows "\<exists>na dexa nb dexb. ((na, dexa), (nb, dexb)) \<in> set (dex_pairs (dexes sc)) \<and>
           available dexa \<and> available dexb \<and>
           opp \<in> set (scan_dex_pair cfg sc gp now dexa dexb na nb)"
  using assms
  by (auto simp: scan_arbitrage_opportunities_def split: if_splits)

lemma estimate_arbitrage_gas_Config:
  "estimate_arbitrage_gas Config sc tok buy_dex sell_dex = 600000"
  by (simp add: estimate_arbitrage_gas_def Config_def split: option.splits)

lemma example_quotes:
  "get_token_price dex_X tok = Inr (Some 1)" "get_token_price dex_Y tok = Inr (Some 1.05)"
  "\<not> isl (get_token_info dex_X tok)" "get_token_info dex_X tok = Inr (Some ''TKN'')"
  by (simp_all add: dex_X_def dex_Y_def example_dex_def)

lemma example_scanner_fields:
  "dexes example_scanner = [(''X'', dex_X), (''Y'', dex_Y)]"
  "monitor_tokens example_scanner = [''0x00000000000000000000000000000000000000a1'']"
  "recent_opportunities example_scanner = []"
  "scanner_max_cache_size example_scanner = 100"
  by (simp_all add: example_scanner_def)

lemma example_available: "available dex_X" "available dex_Y"
  by (simp_all add: available_def dex_X_def dex_Y_def example_dex_def)

lemma example_threshold: "MIN_PROFIT_THRESHOLD Config = 0.005"
  by (simp add: Config_def)

lemma example_scan_token:
  "scan_token Config sc (Inr 1000000000) 0 dex_X dex_Y ''X'' ''Y'' tok =
   Some \<lparr>opp_token_address = tok, token_symbol = ''TKN'', dex_a = ''X'', dex_b = ''Y'',
         price_a = 1, price_b = 1.05, profit_percentage = 5, gas_estimate = 600000,
         net_profit = 0.0044, is_executable = True, discovered_at = 0\<rparr>"
  by (simp add: scan_token_quotes[OF example_quotes(1,2)] example_threshold
      estimate_arbitrage_gas_Config get_gas_price_def example_quotes(4))

lemma example_scan_dex_pair:
  "scan_dex_pair Config example_scanner (Inr 1000000000) 0 dex_X dex_Y ''X'' ''Y'' =
   [\<lparr>opp_token_address = ''0x00000000000000000000000000000000000000a1'',
     token_symbol = ''TKN'', dex_a = ''X'', dex_b = ''Y'',
     price_a = 1, price_b = 1.05, profit_percentage = 5, gas_estimate = 600000,
     net_profit = 0.0044, is_executable = True, discovered_at = 0\<rparr>]"
  by (simp add: scan_dex_pair_def example_scanner_fields example_scan_token)

lemma example_scan:
  "scan_arbitrage_opportunities Config example_scanner (Inr 1000000000) 0 =
   [\<lparr>opp_token_address = ''0x00000000000000000000000000000000000000a1'',
     token_symbol = ''TKN'', dex_a = ''X'', dex_b = ''Y'',
     price_a = 1, price_b = 1.05, profit_percentage = 5, gas_estimate = 600000,
     net_profit = 0.0044, is_executable = True, discovered_at = 0\<rparr>]"
  by (simp add: scan_arbitrage_opportunities_def example_scanner_fields example_available
      example_scan_dex_pair)

text \<open>
  Claim C3: every opportunity that \<^verbatim>\<open>_scan_dex_pair\<close> records was computed from the
  quotes \<open>pA, pB > 0\<close> that the two exchanges return for its token, which is a
  monitored one: its spread percentage is \<open>|pA - pB| / min(pA, pB) \<times> 100\<close>, its buy
  side is the exchange with the smaller quote and its buy price is below its sell price
  when \<open>pA \<noteq> pB\<close>. Conversely, for every monitored token with quotes \<open>pA \<noteq> pB\<close> whose
  spread percentage exceeds \<^verbatim>\<open>MIN_PROFIT_THRESHOLD\<close> (and whose token-info call does not
  raise), such an opportunity is recorded. Every opportunity of a whole scan is one
  of these, for a pair of registered exchanges. Prices are exact reals here.
\<close>

theorem spread_and_buy_side:
  "(\<forall>opp \<in> set (scan_dex_pair cfg sc gp now dexa dexb na nb).
      \<exists>pa pb. get_token_price dexa (opp_token_address opp) = Inr (Some pa) \<and>
              get_token_price dexb (opp_token_address opp) = Inr (Some pb) \<and>
              0 < pa \<and> 0 < pb \<and>
              opp_token_address opp \<in> set (monitor_tokens sc) \<and>
              profit_percentage opp = \<bar>pa - pb\<bar> / min pa pb * 100 \<and>
              price_a opp = min pa pb \<and> price_b opp = max pa pb \<and>
              dex_a opp = (if pa < pb then na else nb) \<and>
              dex_b opp = (if pa < pb then nb else na) \<and>
              (pa \<noteq> pb \<longrightarrow> price_a opp < price_b opp)) \<and>
   (\<forall>tok \<in> set (monitor_tokens sc). \<forall>pa pb.
      get_token_price dexa tok = Inr (Some pa) \<and> get_token_price dexb tok = Inr (Some pb) \<and>
      0 < pa \<and> 0 < pb \<and> pa \<noteq> pb \<and>
      \<bar>pa - pb\<bar> / min pa pb * 100 > MIN_PROFIT_THRESHOLD cfg \<and>
      \<not> isl (get_token_info dexa tok) \<longrightarrow>
      (\<exists>opp \<in> set (scan_dex_pair cfg sc gp now dexa dexb na nb).
         opp_token_address opp = tok \<and>
         profit_percentage opp = \<bar>pa - pb\<bar> / min pa pb * 100 \<and>
         price_a opp = min pa pb \<and> price_b opp = max pa pb \<and>
         dex_a opp = (if pa < pb then na else nb) \<and>
         dex_b opp = (if pa < pb then nb else na))) \<and>
   (\<forall>opp \<in> set (scan_arbitrage_opportunities cfg sc gp now).
      \<exists>ea dea eb deb pa pb.
         ((ea, dea), (eb, deb)) \<in> set (dex_pairs (dexes sc)) \<and>
         get_token_price dea (opp_token_address opp) = Inr (Some pa) \<and>
         get_token_price deb (opp_token_address opp) = Inr (Some pb) \<and>
         0 < pa \<and> 0 < pb \<and>
         profit_percentage opp = \<bar>pa - pb\<bar> / min pa pb * 100 \<and>
         price_a opp = min pa pb \<and> price_b opp = max pa pb \<and>
         dex_a opp = (if pa < pb then ea else eb) \<and>
         dex_b opp = (if pa < pb then eb else ea) \<and>
         (pa \<noteq> pb \<longrightarrow> price_a opp < price_b opp))"
proof (intro conjI ballI allI impI)
  fix opp assume "opp \<in> set (scan_dex_pair cfg sc gp now dexa dexb na nb)"
  then show "\<exists>pa pb. get_token_price dexa (opp_token_address opp) = Inr (Some pa) \<and>
              get_token_price dexb (opp_token_address opp) = Inr (Some pb) \<and>
              0 < pa \<and> 0 < pb \<and>
              opp_token_address opp \<in> set (monitor_tokens sc) \<and>
              profit_percentage opp = \<bar>pa - pb\<bar> / min pa pb * 100 \<and>
              price_a opp = min pa pb \<and> price_b opp = max pa pb \<and>
              dex_a opp = (if pa < pb then na else nb) \<and>
              dex_b opp = (if pa < pb then nb else na) \<and>
              (pa \<noteq> pb \<longrightarrow> price_a opp < price_b opp)"
    by (rule scan_dex_pair_sound)
next
  fix tok pa pb
  assume "tok \<in> set (monitor_tokens sc)"
    and "get_token_price dexa tok = Inr (Some pa) \<and> get_token_price dexb tok = Inr (Some pb) \<and>
      0 < pa \<and> 0 < pb \<and> pa \<noteq> pb \<and>
      \<bar>pa - pb\<bar> / min pa pb * 100 > MIN_PROFIT_THRESHOLD cfg \<and>
      \<not> isl (get_token_info dexa tok)"
  then show "\<exists>opp \<in> set (scan_dex_pair cfg sc gp now dexa dexb na nb).
         opp_token_address opp = tok \<and>
         profit_percentage opp = \<bar>pa - pb\<bar> / min pa pb * 100 \<and>
         price_a opp = min pa pb \<and> price_b opp = max pa pb \<and>
         dex_a opp = (if pa < pb then na else nb) \<and>
         dex_b opp = (if pa < pb then nb else na)"
    using scan_dex_pair_complete[of tok sc dexa pa dexb pb cfg gp now na nb] by blast
next
  fix opp assume "opp \<in> set (scan_arbitrage_opportunities cfg sc gp now)"
  from scan_arbitrage_pair[OF this] obtain ea dea eb deb where
    p: "((ea, dea), (eb, deb)) \<in> set (dex_pairs (dexes sc))"
    and o: "opp \<in> set (scan_dex_pair cfg sc gp now dea deb ea eb)"
    by blast
  from scan_dex_pair_sound[OF o] p
  show "\<exists>ea dea eb deb pa pb.
         ((ea, dea), (eb, deb)) \<in> set (dex_pairs (dexes sc)) \<and>
         get_token_price dea (opp_token_address opp) = Inr (Some pa) \<and>
         get_token_price deb (opp_token_address opp) = Inr (Some pb) \<and>
         0 < pa \<and> 0 < pb \<and>
         profit_percentage opp = \<bar>pa - pb\<bar> / min pa pb * 100 \<and>
         price_a opp = min pa pb \<and> price_b opp = max pa pb \<and>
         dex_a opp = (if pa < pb then ea else eb) \<and>
         dex_b opp = (if pa < pb then eb else ea) \<and>
         (pa \<noteq> pb \<longrightarrow> price_a opp < price_b opp)"
    by blast
qed

theorem spread_and_buy_side_witness:
  "map profit_percentage
     (scan_dex_pair Config example_scanner (Inr 1000000000) 0 dex_X dex_Y ''X'' ''Y'') = [5] \<and>
   map dex_a
     (scan_dex_pair Config example_scanner (Inr 1000000000) 0 dex_X dex_Y ''X'' ''Y'') = [''X''] \<and>
   map price_a
     (scan_dex_pair Config example_scanner (Inr 1000000000) 0 dex_X dex_Y ''X'' ''Y'') = [1] \<and>
   map price_b
     (scan_dex_pair Config example_scanner (Inr 1000000000) 0 dex_X dex_Y ''X'' ''Y'') = [1.05]"
proof -
  have "\<forall>opp \<in> set (scan_dex_pair Config example_scanner (Inr 1000000000) 0
                       dex_X dex_Y ''X'' ''Y'').
      \<exists>pa pb. get_token_price dex_X (opp_token_address opp) = Inr (Some pa) \<and>
              get_token_price dex_Y (opp_token_address opp) = Inr (Some pb) \<and>
              0 < pa \<and> 0 < pb \<and>
              opp_token_address opp \<in> set (monitor_tokens example_scanner) \<and>
              profit_percentage opp = \<bar>pa - pb\<bar> / min pa pb * 100 \<and>
              price_a opp = min pa pb \<and> price_b opp = max pa pb \<and>
              dex_a opp = (if pa < pb then ''X'' else ''Y'') \<and>
              dex_b opp = (if pa < pb then ''Y'' else ''X'') \<and>
              (pa \<noteq> pb \<longrightarrow> price_a opp < price_b opp)"
    using spread_and_buy_side
      [of Config example_scanner "Inr 1000000000" 0 dex_X dex_Y "''X''" "''Y''"]
    by (rule conjunct1)
  then show ?thesis
    by (simp add: example_scan_dex_pair)
qed

text \<open>
  Claim C4 as stated does not hold: with quotes 1.00 on X and 1.05 on Y the scanner
  divides by the smaller quote, so the spread it records is about 5 percent, not about
  4.76 percent (which is 0.05 / 1.05).
\<close>

theorem scenario_a_spread_is_five_percent:
  "map profit_percentage
     (scan_arbitrage_opportunities Config example_scanner (Inr 833333333) 0) = [5] \<and>
   \<not> \<bar>hd (map profit_percentage
     (scan_arbitrage_opportunities Config example_scanner (Inr 833333333) 0)) - 4.76\<bar> \<le> 0.01"
proof -
  have "scan_token Config example_scanner (Inr 833333333) 0 dex_X dex_Y ''X'' ''Y''
          ''0x00000000000000000000000000000000000000a1'' \<noteq> None"
    by (simp add: scan_token_quotes[OF example_quotes(1,2)] example_threshold
        example_quotes(4))
  then obtain opp where opp: "scan_token Config example_scanner (Inr 833333333) 0 dex_X dex_Y
      ''X'' ''Y'' ''0x00000000000000000000000000000000000000a1'' = Some opp"
    by blast
  from scan_token_SomeD[OF this] obtain pa pb where
    "get_token_price dex_X ''0x00000000000000000000000000000000000000a1'' = Inr (Some pa)"
    "get_token_price dex_Y ''0x00000000000000000000000000000000000000a1'' = Inr (Some pb)"
    "profit_percentage opp = \<bar>pa - pb\<bar> / min pa pb * 100"
    by blast
  then have "profit_percentage opp = 5"
    unfolding example_quotes by simp
  then show ?thesis
    by (simp add: scan_arbitrage_opportunities_def scan_dex_pair_def example_scanner_fields
        example_available opp)
qed

text \<open>
  Claim C4, amended: for a monitored token quoted at 1.00 on exchange X and 1.05 on
  exchange Y, with the probe notional 0.1 and a gas cost of about 0.0005 in base
  currency (within 0.000001), the scanner records an opportunity for the token when the
  percentage threshold is below 5 and the token-info call does not raise, and every
  opportunity it records for the token has a spread of about 5 percent, buys on X and
  sells on Y, has a net profit of about \<open>0.1 \<times> 0.05 - 0.0005 = 0.0045\<close> (within
  0.000001) and is marked executable, because its net profit is above the fixed floor
  0.001.
\<close>

theorem scenario_a:
  assumes "tok \<in> set (monitor_tokens sc)"
    and "get_token_price dexa tok = Inr (Some 1)" "get_token_price dexb tok = Inr (Some 1.05)"
    and "\<bar>real_of_int (estimate_arbitrage_gas cfg sc tok na nb * get_gas_price gp) / 10 ^ 18
           - 0.0005\<bar> \<le> 0.000001"
    and "MIN_PROFIT_THRESHOLD cfg < 5" "\<not> isl (get_token_info dexa tok)"
  shows "(\<exists>opp \<in> set (scan_dex_pair cfg sc gp now dexa dexb na nb). opp_token_address opp = tok) \<and>
         (\<forall>opp \<in> set (scan_dex_pair cfg sc gp now dexa dexb na nb).
            opp_token_address opp = tok \<longrightarrow>
              \<bar>profit_percentage opp - 5\<bar> \<le> 0.000001 \<and>
              dex_a opp = na \<and> dex_b opp = nb \<and>
              \<bar>net_profit opp - 0.0045\<bar> \<le> 0.000001 \<and> is_executable opp)"
proof (rule conjI)
  have "\<bar>(1::real) - 1.05\<bar> / min 1 1.05 * 100 > MIN_PROFIT_THRESHOLD cfg"
    using assms(5) by simp
  from scan_dex_pair_complete[OF assms(1-3) _ _ this assms(6), of gp now na nb]
  show "\<exists>opp \<in> set (scan_dex_pair cfg sc gp now dexa dexb na nb). opp_token_address opp = tok"
    by auto
next
  show "\<forall>opp \<in> set (scan_dex_pair cfg sc gp now dexa dexb na nb).
          opp_token_address opp = tok \<longrightarrow>
            \<bar>profit_percentage opp - 5\<bar> \<le> 0.000001 \<and>
            dex_a opp = na \<and> dex_b opp = nb \<and>
            \<bar>net_profit opp - 0.0045\<bar> \<le> 0.000001 \<and> is_executable opp"
  proof (intro ballI impI)
    fix opp
    assume "opp \<in> set (scan_dex_pair cfg sc gp now dexa dexb na nb)"
      and t: "opp_token_address opp = tok"
    then obtain tok' where "scan_token cfg sc gp now dexa dexb na nb tok' = Some opp"
      by (auto simp: scan_dex_pair_def scan_tokens_iff)
    moreover from scan_token_SomeD[OF this] t have "tok' = tok" by auto
    ultimately have opp: "scan_token cfg sc gp now dexa dexb na nb tok = Some opp" by simp
    obtain info where info: "get_token_info dexa tok = Inr info"
      using assms(6) by (cases "get_token_info dexa tok") simp_all
    define c where
      "c = real_of_int (estimate_arbitrage_gas cfg sc tok na nb * get_gas_price gp) / 10 ^ 18"
    have c: "\<bar>c - 0.0005\<bar> \<le> 0.000001" using assms(4) by (simp add: c_def)
    have vals: "profit_percentage opp = 5" "dex_a opp = na" "dex_b opp = nb"
      "net_profit opp = 0.005 - c" "is_executable opp \<longleftrightarrow> 0.005 - c > 0.001"
      using opp assms(5)
      unfolding scan_token_quotes[OF assms(2,3) zero_less_one, simplified] c_def
      by (auto simp: info)
    have b: "c - 0.0005 \<le> 0.000001 \<and> - (c - 0.0005) \<le> 0.000001"
      using c unfolding abs_le_iff .
    have "\<bar>0.005 - c - 0.0045\<bar> \<le> 0.000001" "0.005 - c > 0.001"
      unfolding abs_le_iff using b by simp_all
    then show "\<bar>profit_percentage opp - 5\<bar> \<le> 0.000001 \<and> dex_a opp = na \<and> dex_b opp = nb \<and>
          \<bar>net_profit opp - 0.0045\<bar> \<le> 0.000001 \<and> is_executable opp"
      unfolding vals by simp
  qed
qed

theorem scenario_a_witness:
  "(\<exists>opp \<in> set (scan_dex_pair Config example_scanner (Inr 833333333) 0 dex_X dex_Y ''X'' ''Y'').
      opp_token_address opp = ''0x00000000000000000000000000000000000000a1'' \<and>
      \<bar>profit_percentage opp - 5\<bar> \<le> 0.000001 \<and> dex_a opp = ''X'' \<and> dex_b opp = ''Y'' \<and>
      \<bar>net_profit opp - 0.0045\<bar> \<le> 0.000001 \<and> is_executable opp)"
  using scenario_a[of "''0x00000000000000000000000000000000000000a1''" example_scanner
      dex_X dex_Y Config "''X''" "''Y''" "Inr 833333333" 0]
  by (simp add: example_scanner_fields example_quotes estimate_arbitrage_gas_Config
      get_gas_price_def example_threshold) blast

text \<open>
  Claim C5: for every opportunity that a scan produces, and for every opportunity in the
  cache after a pass of the scan loop over a cache for which this holds, the executable
  flag is true if and only if the net profit exceeds 0.001, whatever the percentage
  threshold of the configuration is.
\<close>

theorem executable_iff_net_profit_above_floor:
  "(\<forall>opp \<in> set (scan_arbitrage_opportunities cfg sc gp now).
      is_executable opp \<longleftrightarrow> net_profit opp > 0.001) \<and>
   ((\<forall>opp \<in> set (recent_opportunities sc). is_executable opp \<longleftrightarrow> net_profit opp > 0.001) \<longrightarrow>
    (\<forall>opp \<in> set (recent_opportunities (scan_loop_pass cfg sc gp now)).
      is_executable opp \<longleftrightarrow> net_profit opp > 0.001))"
proof (intro conjI impI ballI)
  fix opp assume "opp \<in> set (scan_arbitrage_opportunities cfg sc gp now)"
  then show "is_executable opp \<longleftrightarrow> net_profit opp > 0.001"
    by (rule scan_arbitrage_executable)
next
  fix opp
  assume old: "\<forall>opp \<in> set (recent_opportunities sc). is_executable opp \<longleftrightarrow> net_profit opp > 0.001"
    and "opp \<in> set (recent_opportunities (scan_loop_pass cfg sc gp now))"
  then have "opp \<in> set (recent_opportunities sc) \<or>
       opp \<in> set (scan_arbitrage_opportunities cfg sc gp now)"
    using set_add_to_cache[of sc "filter (\<lambda>opp. profit_percentage opp > MIN_PROFIT_THRESHOLD cfg \<and> is_executable opp)
                   (scan_arbitrage_opportunities cfg sc gp now)"] by (auto simp: scan_loop_pass_def Let_def)
  then show "is_executable opp \<longleftrightarrow> net_profit opp > 0.001"
    using old scan_arbitrage_executable by blast
qed


theorem executable_iff_net_profit_above_floor_witness:
  "map is_executable
     (scan_arbitrage_opportunities Config example_scanner (Inr 1000000000) 0) = [True] \<and>
   map net_profit
     (scan_arbitrage_opportunities Config example_scanner (Inr 1000000000) 0) = [0.0044] \<and>
   map is_executable
     (recent_opportunities (scan_loop_pass Config example_scanner (Inr 1000000000) 0)) = [True]"
proof -
  have pass: "recent_opportunities (scan_loop_pass Config example_scanner (Inr 1000000000) 0) =
      scan_arbitrage_opportunities Config example_scanner (Inr 1000000000) 0"
    by (simp add: example_scan scan_loop_pass_def add_to_cache_def example_scanner_fields
        example_threshold Let_def)
  have "\<forall>opp \<in> set (scan_arbitrage_opportunities Config example_scanner (Inr 1000000000) 0).
          is_executable opp \<longleftrightarrow> net_profit opp > 0.001"
    using executable_iff_net_profit_above_floor
      [of Config example_scanner "Inr 1000000000" 0]
    by (rule conjunct1)
  then show ?thesis
    unfolding pass by (simp add: example_scan)
qed



section \<open>Binary64 rounding and the slippage computation\<close>

lemma round_half_even_bounds: "\<lfloor>r\<rfloor> \<le> round_half_even r \<and> round_half_even r \<le> \<lceil>r\<rceil>"
  unfolding round_half_even_def Let_def
  by (auto simp: ceiling_altdef)

lemma round_half_even_near:
  "r - 1 / 2 \<le> of_int (round_half_even r) \<and> of_int (round_half_even r) \<le> r + 1 / 2"
  unfolding round_half_even_def Let_def by (auto; linarith)


lemma floor_log2_bounds:
  assumes "0 < x"
  shows "2 powr of_int \<lfloor>log 2 x\<rfloor> \<le> x" "x < 2 powr (of_int \<lfloor>log 2 x\<rfloor> + 1)"
  using floor_log_eq_powr_iff[of x 2 "\<lfloor>log 2 x\<rfloor>"] assms by simp_all



lemma above_binade:
  assumes "0 < x" "- 1022 \<le> \<lfloor>log 2 x\<rfloor>"
  shows "2 powr (of_int (ulp_exponent x) + 52) \<le> x"
proof -
  have "ulp_exponent x = \<lfloor>log 2 x\<rfloor> - 52" using assms by (simp add: ulp_exponent_def)
  then show ?thesis using floor_log2_bounds(1)[OF assms(1)] by simp
qed

lemma round_to_double_nonneg: "0 \<le> x \<Longrightarrow> 0 \<le> round_to_double x"
proof -
  assume "0 \<le> x"
  then have "0 \<le> x / 2 powr of_int (ulp_exponent x)" by simp
  then have "0 \<le> \<lfloor>x / 2 powr of_int (ulp_exponent x)\<rfloor>" by simp
  then have "0 \<le> round_half_even (x / 2 powr of_int (ulp_exponent x))"
    using round_half_even_bounds[of "x / 2 powr of_int (ulp_exponent x)"] by linarith
  then show ?thesis by (simp add: round_to_double_def)
qed




lemma round_to_double_near:
  assumes "x \<noteq> 0"
  shows "x - 2 powr of_int (ulp_exponent x) / 2 \<le> round_to_double x"
    "round_to_double x \<le> x + 2 powr of_int (ulp_exponent x) / 2"
proof -
  let ?u = "(2::real) powr of_int (ulp_exponent x)"
  have u: "0 < ?u" by simp
  have n: "x / ?u - 1 / 2 \<le> of_int (round_half_even (x / ?u))"
    "of_int (round_half_even (x / ?u)) \<le> x / ?u + 1 / 2"
    using round_half_even_near[of "x / ?u"] by simp_all
  have ru: "x / ?u * ?u = x" using u by simp
  have lo: "(x / ?u - 1 / 2) * ?u = x - ?u / 2" and hi: "(x / ?u + 1 / 2) * ?u = x + ?u / 2"
    using ru by (simp_all add: algebra_simps)
  have rd: "round_to_double x = of_int (round_half_even (x / ?u)) * ?u"
    using assms by (simp add: round_to_double_def)
  have "(x / ?u - 1 / 2) * ?u \<le> of_int (round_half_even (x / ?u)) * ?u"
    using n(1) u by (intro mult_right_mono) simp_all
  then show "x - ?u / 2 \<le> round_to_double x"
    unfolding rd lo .
  have "of_int (round_half_even (x / ?u)) * ?u \<le> (x / ?u + 1 / 2) * ?u"
    using n(2) u by (intro mult_right_mono) simp_all
  then show "round_to_double x \<le> x + ?u / 2"
    unfolding rd hi .
qed

lemma ulp_le_normal:
  assumes "0 < x" "- 1022 \<le> \<lfloor>log 2 x\<rfloor>"
  shows "2 powr of_int (ulp_exponent x) \<le> x / 2 ^ 52"
proof -
  have "2 powr of_int (ulp_exponent x) * 2 ^ 52 \<le> x"
    using above_binade[OF assms] by (simp add: powr_add)
  then show ?thesis by (simp add: field_simps)
qed

lemma round_to_double_upper:
  assumes "0 \<le> x"
  shows "round_to_double x \<le> 2 * x + 1"
proof (cases "x = 0")
  case True
  then show ?thesis by (simp add: round_to_double_def)
next
  case False
  then have x: "0 < x" using assms by simp
  have "2 powr of_int (ulp_exponent x) \<le> x + 1"
  proof (cases "- 1022 \<le> \<lfloor>log 2 x\<rfloor>")
    case True
    have "x / 2 ^ 52 \<le> x" using x by (simp add: field_simps)
    then show ?thesis using ulp_le_normal[OF x True] x by linarith
  next
    case False
    then have "ulp_exponent x = - 1074" using x by (simp add: ulp_exponent_def)
    then have "2 powr of_int (ulp_exponent x) \<le> (2::real) powr 0"
      by (simp del: powr_zero_eq_one)
    then show ?thesis using x by simp
  qed
  then show ?thesis using round_to_double_near(2)[of x] x by linarith
qed




lemma to_float_Finite:
  "- overflow_threshold < x \<Longrightarrow> x < overflow_threshold \<Longrightarrow> to_float x = Finite (round_to_double x)"
  by (simp add: to_float_def)

lemma threshold_large: "(2::real) ^ 300 \<le> overflow_threshold"
  by (simp add: overflow_threshold_def)

lemma uint256_range: "0 \<le> uint (w :: 256 word)" "uint (w :: 256 word) < 2 ^ 256"
  using uint_bounded[of w] by simp_all

text \<open>
  The value of \<^verbatim>\<open>calculate_slippage\<close> for a quoted output \<open>w\<close> and a slippage percentage
  between 0 and 100: no operation overflows.
\<close>

lemma slippage_in_range:
  assumes "0 \<le> s" "s \<le> 100"
  shows "float_div (float_sub 100 s) 100 = Finite (round_to_double (round_to_double (100 - s) / 100))"
    and "0 \<le> round_to_double (round_to_double (100 - s) / 100)"
    and "round_to_double (round_to_double (100 - s) / 100) \<le> 6"
proof -
  have t: "(1000::real) < overflow_threshold" using threshold_large by simp
  have d0: "0 \<le> round_to_double (100 - s)" using assms by (simp add: round_to_double_nonneg)
  have d1: "round_to_double (100 - s) \<le> 201"
    using round_to_double_upper[of "100 - s"] assms by simp
  have "float_sub 100 s = Finite (round_to_double (100 - s))"
    unfolding float_sub_def using assms t by (intro to_float_Finite) simp_all
  moreover have "to_float (round_to_double (100 - s) / 100) =
      Finite (round_to_double (round_to_double (100 - s) / 100))"
    using d0 d1 t by (intro to_float_Finite) simp_all
  ultimately show "float_div (float_sub 100 s) 100 =
      Finite (round_to_double (round_to_double (100 - s) / 100))" by simp
  show "0 \<le> round_to_double (round_to_double (100 - s) / 100)"
    using d0 by (simp add: round_to_double_nonneg)
  show "round_to_double (round_to_double (100 - s) / 100) \<le> 6"
    using round_to_double_upper[of "round_to_double (100 - s) / 100"] d0 d1 by simp
qed

lemma int_to_float_uint256:
  assumes "0 \<le> n" "n < 2 ^ 256"
  shows "int_to_float n = Some (round_to_double (real_of_int n))"
    and "0 \<le> round_to_double (real_of_int n)"
    and "round_to_double (real_of_int n) \<le> 2 ^ 258"
proof -
  have "real_of_int n < real_of_int (2 ^ 256)" using assms(2) by (simp only: of_int_less_iff)
  then have b: "real_of_int n < 2 ^ 256" by simp
  have n: "0 \<le> real_of_int n" using assms(1) by simp
  have "real_of_int n < overflow_threshold" using b threshold_large by simp
  then have "to_float (real_of_int n) = Finite (round_to_double (real_of_int n))"
    using n by (intro to_float_Finite) (simp_all add: overflow_threshold_def)
  then show "int_to_float n = Some (round_to_double (real_of_int n))"
    by (simp add: int_to_float_def)
  show "0 \<le> round_to_double (real_of_int n)" using n by (rule round_to_double_nonneg)
  show "round_to_double (real_of_int n) \<le> 2 ^ 258"
    using round_to_double_upper[OF n] b by simp
qed

lemma calculate_slippage_in_range:
  assumes "env_get_amounts_out env amount_in path = Some amounts" "amounts \<noteq> []"
    and "0 \<le> s" "s \<le> 100"
  shows "calculate_slippage env amount_in path s =
     py_int (round_to_double (round_to_double (real_of_int (uint (last amounts)))
               * round_to_double (round_to_double (100 - s) / 100)))"
proof -
  define n where "n = uint (last amounts)"
  let ?e = "round_to_double (real_of_int n)"
  let ?m = "round_to_double (round_to_double (100 - s) / 100)"
  have nr: "0 \<le> n" "n < 2 ^ 256" unfolding n_def by (rule uint256_range)+
  have e: "0 \<le> ?e" "?e \<le> 2 ^ 258" using int_to_float_uint256[OF nr] by simp_all
  have m: "0 \<le> ?m" "?m \<le> 6" using assms(3,4) by (rule slippage_in_range)+
  have nonneg: "0 \<le> ?e * ?m" using e m by simp
  have "?e * ?m \<le> 2 ^ 258 * 6" using e m by (intro mult_mono) simp_all
  also have "\<dots> < overflow_threshold" using threshold_large by simp
  finally have "to_float (?e * ?m) = Finite (round_to_double (?e * ?m))"
    using nonneg by (intro to_float_Finite) (simp_all add: overflow_threshold_def)
  then have "calculate_slippage env amount_in path s = py_int (round_to_double (?e * ?m))"
    using assms(1,2)
    by (simp add: calculate_slippage_def Let_def int_to_float_uint256(1)[OF nr]
        slippage_in_range(1)[OF assms(3,4)] float_to_int_def n_def[symmetric])
  then show ?thesis by (simp only: n_def)
qed




lemma round_to_double_binade:
  assumes "2 powr of_int k \<le> x" "x < 2 powr (of_int k + 1)" "- 1022 \<le> k"
  shows "round_to_double x =
         of_int (round_half_even (x / 2 powr of_int (k - 52))) * 2 powr of_int (k - 52)"
proof -
  have x: "0 < x" using assms(1) by (rule less_le_trans[rotated]) simp
  then have "\<lfloor>log 2 x\<rfloor> = k"
    using assms floor_log_eq_powr_iff[of x 2 k] by simp
  then have "ulp_exponent x = k - 52" using x assms(3) by (simp add: ulp_exponent_def)
  then show ?thesis using x by (simp add: round_to_double_def)
qed

lemma round_94: "round_to_double (94) = 94"
proof -
  have "round_to_double (94) =
      of_int (round_half_even (94 / 2 powr of_int (6 - 52))) * 2 powr of_int (6 - 52)"
    by (rule round_to_double_binade) (simp_all add: powr_neg_numeral)
  also have "\<dots> = 94"
    by (simp add: round_half_even_def powr_neg_numeral Let_def)
  finally show ?thesis .
qed

lemma round_94_percent: "round_to_double (94 / 100) = 8466767299456532 / 2 ^ 53"
proof -
  have "round_to_double (94 / 100) =
      of_int (round_half_even (94 / 100 / 2 powr of_int ((- 1) - 52))) * 2 powr of_int ((- 1) - 52)"
    by (rule round_to_double_binade) (simp_all add: powr_neg_numeral)
  also have "\<dots> = 8466767299456532 / 2 ^ 53"
    by (simp add: round_half_even_def powr_neg_numeral Let_def)
  finally show ?thesis .
qed

lemma round_2150: "round_to_double (2150) = 2150"
proof -
  have "round_to_double (2150) =
      of_int (round_half_even (2150 / 2 powr of_int (11 - 52))) * 2 powr of_int (11 - 52)"
    by (rule round_to_double_binade) (simp_all add: powr_neg_numeral)
  also have "\<dots> = 2150"
    by (simp add: round_half_even_def powr_neg_numeral Let_def)
  finally show ?thesis .
qed

lemma round_product: "round_to_double (2150 * (8466767299456532 / 2 ^ 53)) = 8888451998941183 / 2 ^ 42"
proof -
  have "round_to_double (2150 * (8466767299456532 / 2 ^ 53)) =
      of_int (round_half_even (2150 * (8466767299456532 / 2 ^ 53) / 2 powr of_int (10 - 52))) * 2 powr of_int (10 - 52)"
    by (rule round_to_double_binade) (simp_all add: powr_neg_numeral)
  also have "\<dots> = 8888451998941183 / 2 ^ 42"
    by (simp add: round_half_even_def powr_neg_numeral Let_def)
  finally show ?thesis .
qed

lemma calculate_slippage_2150_at_6_percent:
  assumes "env_get_amounts_out env amount_in path = Some amounts" "amounts \<noteq> []"
    and "uint (last amounts) = 2150"
  shows "calculate_slippage env amount_in path 6 = 2020"
proof -
  have "calculate_slippage env amount_in path 6 =
     py_int (round_to_double (round_to_double (real_of_int (uint (last amounts)))
               * round_to_double (round_to_double (100 - 6) / 100)))"
    using assms(1,2) by (rule calculate_slippage_in_range) simp_all
  also have "\<dots> = py_int (8888451998941183 / 2 ^ 42)"
  proof -
    have a: "real_of_int 2150 = 2150" "(100::real) - 6 = 94" by simp_all
    show ?thesis
      unfolding assms(3) a round_94 round_94_percent round_2150 round_product ..
  qed
  also have "\<dots> = 2020" by (simp add: py_int_def)
  finally show ?thesis .
qed


section \<open>The snipe executor\<close>

lemma request_id_example:
  "request_id first_request = ''snipe_7_1700''"
  "request_id second_request = ''snipe_7_1700''"
  by (simp_all add: request_id_def first_request_def second_request_def example_request_def
      py_int_def str_int_def str_nat.simps digit_char_def)

lemma queue_maxsize_example: "queue_maxsize example_executor = 0"
  by (simp add: example_executor_def SniperExecutor_init_def)

lemma submit_snipe_unbounded:
  assumes "queue_maxsize ex \<le> 0"
  shows "submit_snipe ex r =
     Some (request_id r,
           ex\<lparr>active_snipes := (active_snipes ex)(request_id r \<mapsto> r),
              execution_queue := execution_queue ex @ [r]\<rparr>)"
  using assms by (simp add: submit_snipe_def queue_full_def Let_def)

lemma queue_maxsize_execute_snipe:
  "queue_maxsize (snd (execute_snipe cfg ex env r)) = queue_maxsize ex"
  by (simp add: execute_snipe_def Let_def split: sum.splits option.splits)

lemma queue_maxsize_execution_loop_step:
  "queue_maxsize (execution_loop_step cfg ex env) = queue_maxsize ex"
  by (simp add: execution_loop_step_def queue_maxsize_execute_snipe split: list.splits)

lemma queue_maxsize_execution_loop:
  "queue_maxsize (execution_loop cfg ex envs) = queue_maxsize ex"
  by (induction envs arbitrary: ex) (simp_all add: queue_maxsize_execution_loop_step)


lemma execute_snipe_Config:
  "\<not> success (fst (execute_snipe Config ex env r)) \<and>
   snd (execute_snipe Config ex env r) = ex"
  by (simp add: execute_snipe_def Config_def failed_result_def
      split: sum.splits option.splits)




text \<open>
  Claim C7 as stated does not hold: the queue is created without a capacity, so it is
  never full and \<^verbatim>\<open>submit_snipe\<close> has no failure. A submission to an executor with three
  requests waiting returns its key, and four requests wait afterwards.
\<close>

theorem submit_to_unbounded_queue_accepted:
  "queue_maxsize example_executor = 0 \<and>
   map_option fst
     (submit_snipe
        (example_executor\<lparr>execution_queue := [second_request, second_request, second_request]\<rparr>)
        first_request) = Some ''snipe_7_1700'' \<and>
   map_option (length \<circ> execution_queue \<circ> snd)
     (submit_snipe
        (example_executor\<lparr>execution_queue := [second_request, second_request, second_request]\<rparr>)
        first_request) = Some 4"
  by (simp add: submit_snipe_unbounded queue_maxsize_example request_id_example)

text \<open>
  Claim C7, amended: \<^verbatim>\<open>submit_snipe\<close> records the request in \<^verbatim>\<open>active_snipes\<close> under its
  identity key, appends it to the FIFO queue and returns the key without executing
  anything. The queue that \<^verbatim>\<open>__init__\<close> creates has no capacity (\<^verbatim>\<open>maxsize\<close> 0), the
  execution loop does not change that, and on such a queue every submission is
  accepted, whatever the number of requests waiting.
\<close>

theorem submit_never_overloaded:
  "queue_maxsize (SniperExecutor_init cfg) = 0 \<and>
   queue_maxsize (execution_loop cfg ex envs) = queue_maxsize ex \<and>
   (queue_maxsize ex \<le> 0 \<longrightarrow>
      submit_snipe ex r =
        Some (request_id r,
              ex\<lparr>active_snipes := (active_snipes ex)(request_id r \<mapsto> r),
                 execution_queue := execution_queue ex @ [r]\<rparr>))"
  by (simp add: submit_snipe_unbounded queue_maxsize_execution_loop SniperExecutor_init_def)

theorem submit_never_overloaded_witness:
  "submit_snipe example_executor first_request =
     Some (''snipe_7_1700'',
           example_executor
             \<lparr>active_snipes := (active_snipes example_executor)(''snipe_7_1700'' \<mapsto> first_request),
              execution_queue := execution_queue example_executor @ [first_request]\<rparr>)"
  using submit_never_overloaded[of "Config" example_executor "[]" first_request]
  by (simp add: request_id_example queue_maxsize_example)

text \<open>
  Claim C8 as stated does not hold: \<^verbatim>\<open>submit_snipe\<close> does not look the key up. Two
  requests of one user within the same second get the same key, both are accepted and
  queued, and the second replaces the first in \<^verbatim>\<open>active_snipes\<close>.
\<close>

theorem same_key_resubmission_accepted:
  "request_id first_request = request_id second_request \<and>
   submit_snipe example_executor first_request =
     Some (''snipe_7_1700'',
           example_executor
             \<lparr>active_snipes := [''snipe_7_1700'' \<mapsto> first_request],
              execution_queue := [first_request]\<rparr>) \<and>
   submit_snipe
     (example_executor
        \<lparr>active_snipes := [''snipe_7_1700'' \<mapsto> first_request],
         execution_queue := [first_request]\<rparr>)
     second_request =
     Some (''snipe_7_1700'',
           example_executor
             \<lparr>active_snipes := [''snipe_7_1700'' \<mapsto> second_request],
              execution_queue := [first_request, second_request]\<rparr>)"
proof -
  have q: "execution_queue example_executor = []" "active_snipes example_executor = Map.empty"
    by (simp_all add: example_executor_def SniperExecutor_init_def)
  show ?thesis
    by (simp add: submit_snipe_unbounded queue_maxsize_example request_id_example q)
qed

text \<open>
  Claim C8, amended: a second request whose identity key equals that of an earlier one
  is accepted, not rejected: it gets the same key, joins the queue behind the first,
  and replaces the first in \<^verbatim>\<open>active_snipes\<close> under that key.
\<close>

theorem resubmission_same_key_replaces:
  assumes "queue_maxsize ex \<le> 0" "request_id r1 = request_id r2"
  shows "Option.bind (submit_snipe ex r1) (\<lambda>(k1, ex1). submit_snipe ex1 r2) =
         Some (request_id r1,
               ex\<lparr>active_snipes := (active_snipes ex)(request_id r1 \<mapsto> r2),
                  execution_queue := execution_queue ex @ [r1, r2]\<rparr>)"
  using assms by (simp add: submit_snipe_unbounded)

theorem resubmission_same_key_replaces_witness:
  "Option.bind (submit_snipe example_executor first_request)
     (\<lambda>(k1, ex1). submit_snipe ex1 second_request) =
   Some (''snipe_7_1700'',
         example_executor
           \<lparr>active_snipes := (active_snipes example_executor)(''snipe_7_1700'' \<mapsto> second_request),
            execution_queue := execution_queue example_executor @ [first_request, second_request]\<rparr>)"
  using resubmission_same_key_replaces[of example_executor first_request second_request]
  by (simp add: request_id_example queue_maxsize_example)

text \<open>
  Claim C9, evaluated where the code departs from it: a request is submitted to a fresh
  executor and taken from the queue while the liquidity check answers no.
  \<^verbatim>\<open>_execute_snipe\<close> returns a failed result with the reason, the loop drops it,
  nothing is stored, and \<^verbatim>\<open>get_snipe_status\<close> answers \<^verbatim>\<open>None\<close> for the request's key
  while the queue is empty.
\<close>

theorem failed_snipe_has_no_status:
  "submit_snipe example_executor first_request =
     Some (''snipe_7_1700'',
           example_executor
             \<lparr>active_snipes := (active_snipes example_executor)(''snipe_7_1700'' \<mapsto> first_request),
              execution_queue := [first_request]\<rparr>) \<and>
   fst (execute_snipe Config example_executor (example_env False) first_request) =
     failed_result ''Pre-execution checks failed'' 0 \<and>
   get_snipe_status
     (execution_loop_step Config
        (example_executor
           \<lparr>active_snipes := (active_snipes example_executor)(''snipe_7_1700'' \<mapsto> first_request),
            execution_queue := [first_request]\<rparr>)
        (example_env False)) ''snipe_7_1700'' = None \<and>
   execution_queue
     (execution_loop_step Config
        (example_executor
           \<lparr>active_snipes := (active_snipes example_executor)(''snipe_7_1700'' \<mapsto> first_request),
            execution_queue := [first_request]\<rparr>)
        (example_env False)) = []"
proof -
  have pre: "\<not> pre_execution_checks ex (example_env False) r" for ex r
    by (simp add: pre_execution_checks_def example_env_def)
  have q: "execution_queue example_executor = []" "snipe_results example_executor = Map.empty"
    by (simp_all add: example_executor_def SniperExecutor_init_def)
  show ?thesis
    by (simp add: submit_snipe_unbounded queue_maxsize_example request_id_example
        execution_loop_step_def execute_snipe_def pre get_snipe_status_def q)
qed


section \<open>Reading the caches\<close>

text \<open>
  Claim C10: \<^verbatim>\<open>get_recent_launches\<close> and \<^verbatim>\<open>get_recent_opportunities\<close> called with
  limit 0 return the whole cache, oldest first, because the slice \<^verbatim>\<open>[-0:]\<close> is the
  whole list; and a limit greater than the number of cached items returns the whole
  cache too.
\<close>

theorem get_recent_limit_zero_or_large:
  "get_recent_launches m 0 = recent_launches m \<and>
   get_recent_opportunities sc 0 = recent_opportunities sc \<and>
   (int (length (recent_launches m)) < limit \<longrightarrow>
      get_recent_launches m limit = recent_launches m) \<and>
   (int (length (recent_opportunities sc)) < limit \<longrightarrow>
      get_recent_opportunities sc limit = recent_opportunities sc)"
  by (simp add: get_recent_launches_def get_recent_opportunities_def py_slice_from_def)

theorem get_recent_limit_zero_or_large_witness:
  "length (recent_launches (snd (simulate_launch_detection TokenMonitor_init ''0xa1'' 1))) = 1 \<and>
   get_recent_launches (snd (simulate_launch_detection TokenMonitor_init ''0xa1'' 1)) 0 =
     recent_launches (snd (simulate_launch_detection TokenMonitor_init ''0xa1'' 1)) \<and>
   get_recent_launches (snd (simulate_launch_detection TokenMonitor_init ''0xa1'' 1)) 5 =
     recent_launches (snd (simulate_launch_detection TokenMonitor_init ''0xa1'' 1)) \<and>
   get_recent_opportunities
     (example_scanner\<lparr>recent_opportunities := [example_opportunity 1]\<rparr>) 5 =
     [example_opportunity 1]"
  using get_recent_limit_zero_or_large
    [of "snd (simulate_launch_detection TokenMonitor_init ''0xa1'' 1)"
        "example_scanner\<lparr>recent_opportunities := [example_opportunity 1]\<rparr>" 5]
  by (simp add: simulate_launch_detection_def TokenMonitor_init_def Let_def)

end
